theory Spec2Isabelle
  imports Main "HOL-Library.Word"
begin

section \<open>Browser objects\<close>

text \<open>
  The components under \<^verbatim>\<open>src/components\<close> and \<^verbatim>\<open>src/services\<close> are embedded as
  functions on explicit state. The browser objects they touch are modelled as values:
  a \<^verbatim>\<open>Blob\<close> is its bytes and its type, a \<^verbatim>\<open>File\<close> adds a name, a media track is an
  identifier with a kind, and whether a track is live is kept in a set of the component's
  world (see \<open>liveTracks\<close> below).
\<close>

type_synonym byte = "8 word"

record Blob =
  blobData :: "byte list"
  blobType :: string

record File =
  fileName :: string
  fileType :: string
  fileData :: "byte list"

text \<open>\<^verbatim>\<open>new Blob(parts, { type })\<close>: the parts' bytes in order.\<close>

definition newBlob :: "Blob list \<Rightarrow> string \<Rightarrow> Blob" where
  "newBlob parts ty = \<lparr>blobData = concat (map blobData parts), blobType = ty\<rparr>"

text \<open>\<^verbatim>\<open>new File(parts, name, { type })\<close>.\<close>

definition newFile :: "Blob list \<Rightarrow> string \<Rightarrow> string \<Rightarrow> File" where
  "newFile parts nm ty =
     \<lparr>fileName = nm, fileType = ty, fileData = concat (map blobData parts)\<rparr>"

text \<open>\<^verbatim>\<open>blob.size\<close> and \<^verbatim>\<open>file.size\<close>: the number of bytes.\<close>

definition blobSize :: "Blob \<Rightarrow> nat" where
  "blobSize b = length (blobData b)"

definition fileSize :: "File \<Rightarrow> nat" where
  "fileSize f = length (fileData f)"

text \<open>\<^verbatim>\<open>s.startsWith(p)\<close>.\<close>

fun startsWith :: "string \<Rightarrow> string \<Rightarrow> bool" where
  "startsWith s [] = True"
| "startsWith [] (c # p) = False"
| "startsWith (x # s) (c # p) = (x = c \<and> startsWith s p)"

section \<open>Upload validation (\<^verbatim>\<open>InputSection.validateAndSetFile\<close>)\<close>

text \<open>
  The part of \<^verbatim>\<open>InputSection\<close> that the upload picker and the drop zone write:
  the parent's selected video file (behind the \<^verbatim>\<open>setVideoFile\<close> prop) and the
  component's own \<^verbatim>\<open>uploadError\<close>.
\<close>

record InputSection =
  selectedVideoFile :: "File option"
  uploadError :: "string option"

definition MAX_FILE_SIZE :: nat where
  "MAX_FILE_SIZE = 500 * 1024 * 1024"

definition validateAndSetFile :: "File \<Rightarrow> InputSection \<Rightarrow> InputSection" where
  "validateAndSetFile file st =
     (let st1 = st\<lparr>uploadError := None\<rparr> in
      if \<not> startsWith (fileType file) ''video/'' then
        st1\<lparr>uploadError := Some ''Invalid file type. Please upload a video file.''\<rparr>
      else if fileSize file > MAX_FILE_SIZE then
        st1\<lparr>uploadError := Some ''File exceeds 500MB limit. Please choose a smaller video.''\<rparr>
      else
        st1\<lparr>selectedVideoFile := Some file\<rparr>)"

text \<open>
  \<^verbatim>\<open>handleFileChange\<close> and \<^verbatim>\<open>handleDrop\<close> both pass the first file of the list they
  receive, when there is one, to \<^verbatim>\<open>validateAndSetFile\<close>.
\<close>

definition handleFileChange :: "File list \<Rightarrow> InputSection \<Rightarrow> InputSection" where
  "handleFileChange files st =
     (case files of [] \<Rightarrow> st | f # _ \<Rightarrow> validateAndSetFile f st)"

definition handleDrop :: "File list \<Rightarrow> InputSection \<Rightarrow> InputSection" where
  "handleDrop files st =
     (case files of [] \<Rightarrow> st | f # _ \<Rightarrow> validateAndSetFile f st)"

section \<open>Media tracks, streams and the recorder (\<^verbatim>\<open>VideoRecorder\<close>)\<close>

datatype TrackKind = VideoKind | AudioKind

record MediaStreamTrack =
  trackId :: nat
  trackKind :: TrackKind

text \<open>
  A stream is an object with an identity (\<open>streamId\<close>) and its track list. The one
  mutation the component performs on a stream, \<^verbatim>\<open>addTrack\<close>, happens before the
  stream is stored anywhere, so streams are passed as values.
\<close>

record MediaStream =
  streamId :: nat
  tracks :: "MediaStreamTrack list"

definition getTracks :: "MediaStream \<Rightarrow> MediaStreamTrack list" where
  "getTracks ms = tracks ms"

definition getAudioTracks :: "MediaStream \<Rightarrow> MediaStreamTrack list" where
  "getAudioTracks ms = filter (\<lambda>t. trackKind t = AudioKind) (tracks ms)"

definition getVideoTracks :: "MediaStream \<Rightarrow> MediaStreamTrack list" where
  "getVideoTracks ms = filter (\<lambda>t. trackKind t = VideoKind) (tracks ms)"

text \<open>\<^verbatim>\<open>stream.addTrack(track)\<close>: nothing happens when the track is already in the stream.\<close>

definition addTrack :: "MediaStreamTrack \<Rightarrow> MediaStream \<Rightarrow> MediaStream" where
  "addTrack t ms = (if t \<in> set (tracks ms) then ms else ms\<lparr>tracks := tracks ms @ [t]\<rparr>)"

definition trackIds :: "MediaStream \<Rightarrow> nat set" where
  "trackIds ms = set (map trackId (tracks ms))"

text \<open>
  What a \<^verbatim>\<open>catch\<close> receives: an \<^verbatim>\<open>Error\<close> object with its \<^verbatim>\<open>name\<close> and
  \<^verbatim>\<open>message\<close>, or some other thrown value.
\<close>

datatype Thrown = ErrorObject string string | NonError

datatype RecordSource = Camera | Screen | Audio

text \<open>
  The \<^verbatim>\<open>useState\<close> values of the component. A handler created by a render closes over
  the values of that render, so the handlers below take the \<open>Hooks\<close> of the render that
  created them (\<open>env\<close>) next to the component they run on; what they write with a setter
  goes to the component.
\<close>

record Hooks =
  isRecording :: bool
  stream :: "MediaStream option"
  error :: "string option"
  hasRecording :: bool
  recordingTime :: nat
  recordSource :: RecordSource
  includeMic :: bool

datatype RecordingState = Inactive | Recording

text \<open>
  A \<^verbatim>\<open>MediaRecorder\<close>: the options it was built with, the mime type it reports, its
  state, whether \<^verbatim>\<open>stop()\<close> has queued the task that fires \<^verbatim>\<open>dataavailable\<close> and
  \<^verbatim>\<open>stop\<close>, and the render closed over by the \<^verbatim>\<open>onstop\<close> handler attached to it.
\<close>

record MediaRecorder =
  recorderStream :: MediaStream
  requestedMimeType :: "string option"
  mimeType :: string
  state :: RecordingState
  stopQueued :: bool
  onstopEnv :: Hooks

text \<open>
  The preview element: \<open>src\<close> is the blob behind the object URL (\<open>None\<close> for the empty
  string), \<open>srcObject\<close> the live stream.
\<close>

record VideoElement =
  src :: "Blob option"
  srcObject :: "MediaStream option"
  controls :: bool
  muted :: bool

text \<open>
  The component with its refs, the parent's \<open>videoFile\<close> (written through the
  \<^verbatim>\<open>setVideoFile\<close> prop), the stream closed over by the cleanup of the
  \<^verbatim>\<open>useEffect(..., [stream])\<close> that ran last, the \<^verbatim>\<open>onended\<close> listener put on the
  display video track, and the world: which tracks are live and which intervals are
  running.
\<close>

record Component =
  hooks :: Hooks
  mediaRecorderRef :: "MediaRecorder option"
  videoRef :: "VideoElement option"
  recordedChunks :: "Blob list"
  timerIntervalRef :: "nat option"
  videoFile :: "File option"
  effectStream :: "MediaStream option"
  onended :: "(nat \<times> Hooks) option"
  liveTracks :: "nat set"
  activeIntervals :: "nat set"
  nextIntervalId :: nat

definition setIsRecording :: "bool \<Rightarrow> Component \<Rightarrow> Component" where
  "setIsRecording v st = st\<lparr>hooks := (hooks st)\<lparr>isRecording := v\<rparr>\<rparr>"

definition setStream :: "MediaStream option \<Rightarrow> Component \<Rightarrow> Component" where
  "setStream v st = st\<lparr>hooks := (hooks st)\<lparr>stream := v\<rparr>\<rparr>"

definition setError :: "string option \<Rightarrow> Component \<Rightarrow> Component" where
  "setError v st = st\<lparr>hooks := (hooks st)\<lparr>error := v\<rparr>\<rparr>"

definition setHasRecording :: "bool \<Rightarrow> Component \<Rightarrow> Component" where
  "setHasRecording v st = st\<lparr>hooks := (hooks st)\<lparr>hasRecording := v\<rparr>\<rparr>"

definition setRecordingTime :: "nat \<Rightarrow> Component \<Rightarrow> Component" where
  "setRecordingTime v st = st\<lparr>hooks := (hooks st)\<lparr>recordingTime := v\<rparr>\<rparr>"

definition setVideoFile :: "File option \<Rightarrow> Component \<Rightarrow> Component" where
  "setVideoFile v st = st\<lparr>videoFile := v\<rparr>"

text \<open>\<^verbatim>\<open>stream?.getTracks().forEach(track => track.stop())\<close>.\<close>

definition stopTracks :: "MediaStream option \<Rightarrow> Component \<Rightarrow> Component" where
  "stopTracks s st =
     (case s of
        None \<Rightarrow> st
      | Some ms \<Rightarrow> st\<lparr>liveTracks := liveTracks st - set (map trackId (getTracks ms))\<rparr>)"

text \<open>
  \<^verbatim>\<open>window.setInterval\<close> hands out the next identifier and starts the interval;
  \<^verbatim>\<open>clearInterval\<close> ends it. \<open>truthy\<close> is the test \<^verbatim>\<open>if (timerIntervalRef.current)\<close>:
  \<^verbatim>\<open>null\<close> and \<^verbatim>\<open>0\<close> fail it.
\<close>

definition setInterval :: "Component \<Rightarrow> nat \<times> Component" where
  "setInterval st =
     (nextIntervalId st,
      st\<lparr>activeIntervals := insert (nextIntervalId st) (activeIntervals st),
         nextIntervalId := nextIntervalId st + 1\<rparr>)"

definition clearInterval :: "nat \<Rightarrow> Component \<Rightarrow> Component" where
  "clearInterval i st = st\<lparr>activeIntervals := activeIntervals st - {i}\<rparr>"

definition truthy :: "nat option \<Rightarrow> bool" where
  "truthy r = (case r of None \<Rightarrow> False | Some i \<Rightarrow> i \<noteq> 0)"

subsection \<open>The platform as seen by one start\<close>

text \<open>
  One run of \<^verbatim>\<open>handleStartRecording\<close> calls \<^verbatim>\<open>getUserMedia\<close> at most once and
  \<^verbatim>\<open>getDisplayMedia\<close> at most once. The platform is given by the outcome of each call
  (a thrown value, or the identifiers of the stream and of the tracks it grants), by
  \<^verbatim>\<open>MediaRecorder.isTypeSupported\<close>, and by the mime type a recorder built with given
  options reports.
\<close>

record Platform =
  userMediaOutcome :: "Thrown + (nat \<times> nat \<times> nat)"
  displayMediaOutcome :: "Thrown + (nat \<times> nat \<times> nat option)"
  isTypeSupported :: "string \<Rightarrow> bool"
  reportedMimeType :: "string option \<Rightarrow> string"

text \<open>
  \<^verbatim>\<open>navigator.mediaDevices.getUserMedia({ video, audio })\<close>: on success a stream with
  one track for each kind asked for; asking for neither is a \<^verbatim>\<open>TypeError\<close>.
\<close>

definition getUserMedia :: "Platform \<Rightarrow> bool \<Rightarrow> bool \<Rightarrow> Thrown + MediaStream" where
  "getUserMedia plat video audio =
     (if \<not> video \<and> \<not> audio then
        Inl (ErrorObject ''TypeError'' ''At least one of audio and video must be requested'')
      else
        case userMediaOutcome plat of
          Inl e \<Rightarrow> Inl e
        | Inr (sid, v, a) \<Rightarrow>
            Inr \<lparr>streamId = sid,
                 tracks = (if video then [\<lparr>trackId = v, trackKind = VideoKind\<rparr>] else [])
                        @ (if audio then [\<lparr>trackId = a, trackKind = AudioKind\<rparr>] else [])\<rparr>)"

text \<open>
  \<^verbatim>\<open>navigator.mediaDevices.getDisplayMedia({ video, audio: true })\<close>: on success a
  stream with the display video track and, when the platform grants system or tab audio,
  an audio track.
\<close>

definition getDisplayMedia :: "Platform \<Rightarrow> Thrown + MediaStream" where
  "getDisplayMedia plat =
     (case displayMediaOutcome plat of
        Inl e \<Rightarrow> Inl e
      | Inr (sid, v, a) \<Rightarrow>
          Inr \<lparr>streamId = sid,
               tracks = \<lparr>trackId = v, trackKind = VideoKind\<rparr>
                      # (case a of None \<Rightarrow> []
                         | Some i \<Rightarrow> [\<lparr>trackId = i, trackKind = AudioKind\<rparr>])\<rparr>)"

text \<open>The tracks of a granted stream are live from the grant on.\<close>

definition grant :: "MediaStream \<Rightarrow> Component \<Rightarrow> Component" where
  "grant ms st = st\<lparr>liveTracks := liveTracks st \<union> trackIds ms\<rparr>"

text \<open>
  \<^verbatim>\<open>new MediaRecorder(stream, options)\<close> throws \<^verbatim>\<open>NotSupportedError\<close> when the options
  name a mime type the platform does not support; with no mime type the platform chooses
  its default. The recorder starts inactive; \<open>env\<close> is the render whose
  \<^verbatim>\<open>handleStartRecording\<close> attaches the \<^verbatim>\<open>onstop\<close> handler.
\<close>

definition newMediaRecorder ::
  "Platform \<Rightarrow> MediaStream \<Rightarrow> string option \<Rightarrow> Hooks \<Rightarrow> Thrown + MediaRecorder" where
  "newMediaRecorder plat ms opts env =
     (let recorder = \<lparr>recorderStream = ms, requestedMimeType = opts,
                      mimeType = reportedMimeType plat opts, state = Inactive,
                      stopQueued = False, onstopEnv = env\<rparr> in
      case opts of
        None \<Rightarrow> Inr recorder
      | Some m \<Rightarrow>
          if isTypeSupported plat m then Inr recorder
          else Inl (ErrorObject ''NotSupportedError'' ''mimeType is not supported''))"

subsection \<open>\<^verbatim>\<open>handleStartRecording\<close>\<close>

text \<open>The preview reset at the head of \<^verbatim>\<open>handleStartRecording\<close>.\<close>

definition resetPreview :: "Component \<Rightarrow> Component" where
  "resetPreview st =
     st\<lparr>videoRef :=
          map_option (\<lambda>v. v\<lparr>src := None, srcObject := None, controls := False\<rparr>) (videoRef st)\<rparr>"

text \<open>
  The screen path with the microphone: a second request, whose first audio track is
  added to the display stream. \<^verbatim>\<open>addTrack(undefined)\<close> is a \<^verbatim>\<open>TypeError\<close>.
\<close>

definition addMicrophone ::
  "Platform \<Rightarrow> MediaStream \<Rightarrow> Component \<Rightarrow> (Thrown \<times> Component) + (MediaStream \<times> Component)" where
  "addMicrophone plat displayStream st =
     (case getUserMedia plat False True of
        Inl e \<Rightarrow> Inl (e, st)
      | Inr micStream \<Rightarrow>
          (case getAudioTracks (micStream) of
             [] \<Rightarrow> Inl (ErrorObject ''TypeError'' ''parameter 1 is not of type MediaStreamTrack'',
                        grant micStream st)
           | micTrack # _ \<Rightarrow> Inr (addTrack micTrack displayStream, grant micStream st)))"

text \<open>
  \<^verbatim>\<open>videoTrack.onended = () => handleStopRecording()\<close>, on the first video track when
  there is one: the listener is the \<^verbatim>\<open>handleStopRecording\<close> of the render \<open>env\<close>.
\<close>

definition listenForEnded :: "Hooks \<Rightarrow> MediaStream \<Rightarrow> Component \<Rightarrow> Component" where
  "listenForEnded env mediaStream st =
     (case getVideoTracks mediaStream of
        [] \<Rightarrow> st
      | videoTrack # _ \<Rightarrow> st\<lparr>onended := Some (trackId videoTrack, env)\<rparr>)"

text \<open>
  The three acquisition paths of the \<^verbatim>\<open>try\<close> block. A failure carries the component as
  it is when the exception is thrown: tracks granted before the failure stay as they are.
\<close>

definition acquire ::
  "Hooks \<Rightarrow> Platform \<Rightarrow> Component \<Rightarrow> (Thrown \<times> Component) + (MediaStream \<times> Component)" where
  "acquire env plat st =
     (if recordSource env = Audio then
        (case getUserMedia plat False True of
           Inl e \<Rightarrow> Inl (e, st)
         | Inr mediaStream \<Rightarrow> Inr (mediaStream, grant mediaStream st))
      else if recordSource env = Camera then
        (case getUserMedia plat True (includeMic env) of
           Inl e \<Rightarrow> Inl (e, st)
         | Inr mediaStream \<Rightarrow> Inr (mediaStream, grant mediaStream st))
      else
        (case getDisplayMedia plat of
           Inl e \<Rightarrow> Inl (e, st)
         | Inr displayStream \<Rightarrow>
             (case (if includeMic env then addMicrophone plat displayStream (grant displayStream st)
                    else Inr (displayStream, grant displayStream st)) of
                Inl failed \<Rightarrow> Inl failed
              | Inr (mediaStream, st1) \<Rightarrow> Inr (mediaStream, listenForEnded env mediaStream st1))))"

definition preferredMimeType :: "RecordSource \<Rightarrow> string" where
  "preferredMimeType source =
     (if source = Audio then ''audio/webm'' else ''video/webm; codecs=vp9'')"

text \<open>The recorder options after the \<^verbatim>\<open>isTypeSupported\<close> test: \<open>None\<close> is \<^verbatim>\<open>{}\<close>.\<close>

definition recorderOptions :: "Platform \<Rightarrow> RecordSource \<Rightarrow> string option" where
  "recorderOptions plat source =
     (if preferredMimeType source \<noteq> [] \<and> \<not> isTypeSupported plat (preferredMimeType source)
      then None else Some (preferredMimeType source))"

text \<open>
  The rest of the \<^verbatim>\<open>try\<close> block, from \<^verbatim>\<open>setStream(mediaStream)\<close> on. Only the
  constructor can throw here; \<^verbatim>\<open>recorder.start()\<close> puts the recorder in the recording
  state.
\<close>

definition startRecorder ::
  "Hooks \<Rightarrow> Platform \<Rightarrow> MediaStream \<Rightarrow> Component \<Rightarrow> (Thrown \<times> Component) + Component" where
  "startRecorder env plat mediaStream st =
     (let st1 = setStream (Some mediaStream) st;
          st2 = (if recordSource env \<noteq> Audio then
                   st1\<lparr>videoRef :=
                         map_option (\<lambda>v. v\<lparr>srcObject := Some mediaStream, muted := True\<rparr>)
                           (videoRef st1)\<rparr>
                 else st1)
      in case newMediaRecorder plat mediaStream (recorderOptions plat (recordSource env)) env of
           Inl e \<Rightarrow> Inl (e, st2)
         | Inr recorder \<Rightarrow>
             (let st3 = st2\<lparr>mediaRecorderRef := Some (recorder\<lparr>state := Recording\<rparr>)\<rparr>;
                  st4 = setIsRecording True st3;
                  (i, st5) = setInterval st4
              in Inr (st5\<lparr>timerIntervalRef := Some i\<rparr>)))"

text \<open>The message chosen by the \<^verbatim>\<open>catch\<close> block.\<close>

definition errorMessage :: "Hooks \<Rightarrow> Thrown \<Rightarrow> string" where
  "errorMessage env err =
     (case err of
        ErrorObject name message \<Rightarrow>
          if name = ''NotAllowedError'' \<or> name = ''PermissionDeniedError'' then
            (if recordSource env = Camera then ''Camera/mic'' else ''Screen'')
              @ '' permission denied. Please allow access in your browser settings.''
          else if name = ''NotFoundError'' then
            ''No camera or microphone found. Please connect a device and try again.''
          else ''Could not start recording: '' @ message
      | NonError \<Rightarrow> ''An unknown error occurred while accessing media devices.'')"

definition catchStart :: "Hooks \<Rightarrow> Thrown \<Rightarrow> Component \<Rightarrow> Component" where
  "catchStart env err st = setIsRecording False (setError (Some (errorMessage env err)) st)"

text \<open>
  \<^verbatim>\<open>handleStartRecording\<close>, as created by the render \<open>env\<close>. Here the part before the
  awaited acquisition and the part after it are run as one step, with no other event
  between them; \<open>startRequested\<close> and \<open>startResumed\<close> below give the two parts apart.
\<close>

definition handleStartRecording :: "Hooks \<Rightarrow> Platform \<Rightarrow> Component \<Rightarrow> Component" where
  "handleStartRecording env plat st =
     (let st1 = setError None st;
          st2 = setVideoFile None st1;
          st3 = setHasRecording False st2;
          st4 = st3\<lparr>recordedChunks := []\<rparr>;
          st5 = setRecordingTime 0 st4;
          st6 = resetPreview st5
      in case acquire env plat st6 of
           Inl (err, st7) \<Rightarrow> catchStart env err st7
         | Inr (mediaStream, st7) \<Rightarrow>
             (case startRecorder env plat mediaStream st7 of
                Inl (err, st8) \<Rightarrow> catchStart env err st8
              | Inr st8 \<Rightarrow> st8))"

text \<open>
  The two parts of \<^verbatim>\<open>handleStartRecording\<close> on their own: what runs at the click, up to
  the awaited acquisition, and what runs when the acquisition has settled. Other events
  can come between the two.
\<close>

definition startRequested :: "Component \<Rightarrow> Component" where
  "startRequested st =
     (let st1 = setError None st;
          st2 = setVideoFile None st1;
          st3 = setHasRecording False st2;
          st4 = st3\<lparr>recordedChunks := []\<rparr>;
          st5 = setRecordingTime 0 st4
      in resetPreview st5)"

definition startResumed :: "Hooks \<Rightarrow> Platform \<Rightarrow> Component \<Rightarrow> Component" where
  "startResumed env plat st6 =
     (case acquire env plat st6 of
        Inl (err, st7) \<Rightarrow> catchStart env err st7
      | Inr (mediaStream, st7) \<Rightarrow>
          (case startRecorder env plat mediaStream st7 of
             Inl (err, st8) \<Rightarrow> catchStart env err st8
           | Inr st8 \<Rightarrow> st8))"

subsection \<open>The recorder's handlers, \<^verbatim>\<open>handleStopRecording\<close> and the interval\<close>

definition ondataavailable :: "Blob \<Rightarrow> Component \<Rightarrow> Component" where
  "ondataavailable eventData st =
     (if blobSize eventData > 0 then st\<lparr>recordedChunks := recordedChunks st @ [eventData]\<rparr>
      else st)"

definition defaultMimeType :: "RecordSource \<Rightarrow> string" where
  "defaultMimeType source = (if source = Audio then ''audio/webm'' else ''video/webm'')"

definition recordingFileName :: "RecordSource \<Rightarrow> string" where
  "recordingFileName source =
     (if source = Screen then ''screen-recording.webm''
      else if source = Camera then ''camera-recording.webm''
      else if source = Audio then ''audio-recording.webm''
      else ''recording.webm'')"

text \<open>
  \<^verbatim>\<open>mediaRecorderRef.current?.mimeType || (...)\<close>: the recorder's mime type unless it is
  missing or empty.
\<close>

definition artifactMimeType :: "Hooks \<Rightarrow> Component \<Rightarrow> string" where
  "artifactMimeType env st =
     (case mediaRecorderRef st of
        None \<Rightarrow> defaultMimeType (recordSource env)
      | Some r \<Rightarrow> if mimeType r \<noteq> [] then mimeType r else defaultMimeType (recordSource env))"

text \<open>
  \<^verbatim>\<open>recorder.onstop\<close>. The handler is created inside \<^verbatim>\<open>handleStartRecording\<close>, so
  \<^verbatim>\<open>recordSource\<close> and \<^verbatim>\<open>stream\<close> are those of the render \<open>env\<close> that started the
  recording; the refs are read when the handler runs.
\<close>

definition onstop :: "Hooks \<Rightarrow> Component \<Rightarrow> Component" where
  "onstop env st =
     (let mimeType = artifactMimeType env st;
          blob = newBlob (recordedChunks st) mimeType;
          file = newFile [blob] (recordingFileName (recordSource env)) mimeType;
          st1 = setVideoFile (Some file) st;
          st2 = setHasRecording True st1;
          st3 = (if recordSource env \<noteq> Audio then
                   st2\<lparr>videoRef :=
                         map_option
                           (\<lambda>v. v\<lparr>srcObject := None, src := Some blob, muted := False,
                                  controls := True\<rparr>)
                           (videoRef st2)\<rparr>
                 else st2);
          st4 = stopTracks (stream env) st3;
          st5 = setStream None st4
      in setIsRecording False st5)"

text \<open>
  \<^verbatim>\<open>handleStopRecording\<close>, as created by the render \<open>env\<close>. \<^verbatim>\<open>recorder.stop()\<close> makes
  the recorder inactive and queues the task that fires \<^verbatim>\<open>dataavailable\<close> and then
  \<^verbatim>\<open>stop\<close>.
\<close>

definition handleStopRecording :: "Hooks \<Rightarrow> Component \<Rightarrow> Component" where
  "handleStopRecording env st =
     (let st1 = (case timerIntervalRef st of
                   None \<Rightarrow> st
                 | Some i \<Rightarrow>
                     if truthy (Some i) then (clearInterval i st)\<lparr>timerIntervalRef := None\<rparr>
                     else st);
          otherwise = setIsRecording False (setStream None (stopTracks (stream env) st1))
      in case mediaRecorderRef st1 of
           None \<Rightarrow> otherwise
         | Some r \<Rightarrow>
             if state r = Recording then
               st1\<lparr>mediaRecorderRef := Some (r\<lparr>state := Inactive, stopQueued := True\<rparr>)\<rparr>
             else otherwise)"

text \<open>
  The task queued by \<^verbatim>\<open>recorder.stop()\<close>: the data gathered since the last chunk goes
  to \<^verbatim>\<open>ondataavailable\<close>, then \<^verbatim>\<open>onstop\<close> runs.
\<close>

definition recorderStopTask :: "Blob \<Rightarrow> Component \<Rightarrow> Component" where
  "recorderStopTask lastData st =
     (case mediaRecorderRef st of
        None \<Rightarrow> st
      | Some r \<Rightarrow>
          if stopQueued r then
            onstop (onstopEnv r)
              ((ondataavailable lastData st)\<lparr>mediaRecorderRef := Some (r\<lparr>stopQueued := False\<rparr>)\<rparr>)
          else st)"

text \<open>
  The interval callback \<^verbatim>\<open>setRecordingTime(prevTime => prevTime + 1)\<close>; it runs only
  while its interval has not been cleared.
\<close>

definition intervalCallback :: "Component \<Rightarrow> Component" where
  "intervalCallback st = setRecordingTime (recordingTime (hooks st) + 1) st"

definition intervalElapses :: "nat \<Rightarrow> Component \<Rightarrow> Component" where
  "intervalElapses i st = (if i \<in> activeIntervals st then intervalCallback st else st)"

definition handleSourceChange :: "Hooks \<Rightarrow> RecordSource \<Rightarrow> Component \<Rightarrow> Component" where
  "handleSourceChange env source st =
     (if isRecording env then st
      else
        (let st1 = st\<lparr>hooks := (hooks st)\<lparr>recordSource := source\<rparr>\<rparr> in
         if hasRecording env \<or> (case error env of None \<Rightarrow> False | Some e \<Rightarrow> e \<noteq> []) then
           (setVideoFile None (setHasRecording False (setError None st1)))
             \<lparr>videoRef :=
                map_option (\<lambda>v. v\<lparr>src := None, srcObject := None, controls := False\<rparr>)
                  (videoRef st1)\<rparr>
         else st1))"

definition setIncludeMic :: "bool \<Rightarrow> Component \<Rightarrow> Component" where
  "setIncludeMic v st = st\<lparr>hooks := (hooks st)\<lparr>includeMic := v\<rparr>\<rparr>"

subsection \<open>Renders and the effect on \<^verbatim>\<open>[stream]\<close>\<close>

text \<open>
  The cleanup returned by \<^verbatim>\<open>useEffect(() => { return () => {...} }, [stream])\<close>. It
  closes over the \<^verbatim>\<open>stream\<close> of the render that ran the effect and reads
  \<^verbatim>\<open>timerIntervalRef.current\<close> when it runs.
\<close>

definition effectCleanup :: "MediaStream option \<Rightarrow> Component \<Rightarrow> Component" where
  "effectCleanup s st =
     (let st1 = stopTracks s st in
      case timerIntervalRef st1 of
        None \<Rightarrow> st1
      | Some i \<Rightarrow> if truthy (Some i) then clearInterval i st1 else st1)"

text \<open>
  State written by a handler is rendered once the handler's run has ended: the updates of
  one run are batched, after an \<^verbatim>\<open>await\<close> too, so the render that shows the new
  \<^verbatim>\<open>stream\<close> comes after the last statement of \<^verbatim>\<open>handleStartRecording\<close>. After the
  render, the effect's dependency \<^verbatim>\<open>stream\<close> is compared with the one of the last run:
  when it has changed, the old cleanup runs and the effect runs again, now closing over
  the new \<^verbatim>\<open>stream\<close>. Unmounting runs the current cleanup.
\<close>

definition commit :: "Component \<Rightarrow> Component" where
  "commit st =
     (if stream (hooks st) \<noteq> effectStream st then
        (effectCleanup (effectStream st) st)\<lparr>effectStream := stream (hooks st)\<rparr>
      else st)"

definition unmount :: "Component \<Rightarrow> Component" where
  "unmount st = effectCleanup (effectStream st) st"

subsection \<open>Events\<close>

text \<open>
  The component renders one main button: \<^verbatim>\<open>Start Recording\<close> (or \<^verbatim>\<open>Re-record\<close>)
  bound to \<^verbatim>\<open>handleStartRecording\<close> when \<^verbatim>\<open>!isRecording\<close>, and \<^verbatim>\<open>Stop Recording\<close>
  bound to \<^verbatim>\<open>handleStopRecording\<close> otherwise. The handlers of the buttons are those of
  the current render.
\<close>

datatype Button = StartButton | StopButton

definition renderedButton :: "Component \<Rightarrow> Button" where
  "renderedButton st = (if \<not> isRecording (hooks st) then StartButton else StopButton)"

definition clickStart :: "Platform \<Rightarrow> Component \<Rightarrow> Component" where
  "clickStart plat st = commit (handleStartRecording (hooks st) plat st)"

definition clickStop :: "Component \<Rightarrow> Component" where
  "clickStop st = commit (handleStopRecording (hooks st) st)"

definition clickButton :: "Platform \<Rightarrow> Component \<Rightarrow> Component" where
  "clickButton plat st =
     (case renderedButton st of
        StartButton \<Rightarrow> clickStart plat st
      | StopButton \<Rightarrow> clickStop st)"

text \<open>
  The platform ends the display video track (the browser's own control for ending the
  share) and fires the track's \<^verbatim>\<open>onended\<close> listener.
\<close>

definition shareEnded :: "Component \<Rightarrow> Component" where
  "shareEnded st =
     (case onended st of
        None \<Rightarrow> st
      | Some (t, env) \<Rightarrow> commit (handleStopRecording env (st\<lparr>liveTracks := liveTracks st - {t}\<rparr>)))"

text \<open>The recorder delivers its chunks in order, then the stop task once it is queued.\<close>

definition chunksArrive :: "Blob list \<Rightarrow> Component \<Rightarrow> Component" where
  "chunksArrive chunks st = foldl (\<lambda>s c. ondataavailable c s) st chunks"

definition recorderStops :: "Blob \<Rightarrow> Component \<Rightarrow> Component" where
  "recorderStops lastData st = commit (recorderStopTask lastData st)"

definition tick :: "nat \<Rightarrow> Component \<Rightarrow> Component" where
  "tick i st = commit (intervalElapses i st)"

text \<open>The component as mounted: camera selected, microphone included.\<close>

definition mounted :: Component where
  "mounted =
     \<lparr>hooks = \<lparr>isRecording = False, stream = None, error = None, hasRecording = False,
               recordingTime = 0, recordSource = Camera, includeMic = True\<rparr>,
      mediaRecorderRef = None,
      videoRef = Some \<lparr>src = None, srcObject = None, controls = False, muted = False\<rparr>,
      recordedChunks = [],
      timerIntervalRef = None,
      videoFile = None,
      effectStream = None,
      onended = None,
      liveTracks = {},
      activeIntervals = {},
      nextIntervalId = 1\<rparr>"

subsection \<open>Sessions and what is observed of them\<close>

text \<open>
  A recording session as the user drives it: a click on the start button, the chunks the
  recorder delivers, a click on the stop button, and the recorder's stop task with the
  data gathered last. In the second form the platform ends the share instead of the user
  clicking stop.
\<close>

definition recordingSession :: "Platform \<Rightarrow> Blob list \<Rightarrow> Blob \<Rightarrow> Component \<Rightarrow> Component" where
  "recordingSession plat chunks lastData st =
     recorderStops lastData (clickStop (chunksArrive chunks (clickStart plat st)))"

definition sessionEndedByPlatform ::
  "Platform \<Rightarrow> Blob list \<Rightarrow> Blob \<Rightarrow> Component \<Rightarrow> Component" where
  "sessionEndedByPlatform plat chunks lastData st =
     recorderStops lastData (shareEnded (chunksArrive chunks (clickStart plat st)))"

text \<open>
  The tracks the platform hands out during the acquisition of a start: those live after
  \<open>acquire\<close> has run on a component that had none. \<open>acquisitionSucceeds\<close> says that the
  acquisition yields a stream.
\<close>

definition acquiredTracks :: "Hooks \<Rightarrow> Platform \<Rightarrow> nat set" where
  "acquiredTracks env plat =
     (case acquire env plat mounted of
        Inl (err, st) \<Rightarrow> liveTracks st
      | Inr (mediaStream, st) \<Rightarrow> liveTracks st)"

definition acquisitionSucceeds :: "Hooks \<Rightarrow> Platform \<Rightarrow> bool" where
  "acquisitionSucceeds env plat =
     (case acquire env plat mounted of Inl failed \<Rightarrow> False | Inr granted \<Rightarrow> True)"

text \<open>
  The component that \<^verbatim>\<open>handleStartRecording\<close> of the render \<open>env\<close> leaves when the
  acquisition has yielded the stream \<open>ms\<close> and left the listener \<open>l\<close> (used to state
  the lemmas on a successful start).
\<close>

definition startedWith ::
  "Hooks \<Rightarrow> Platform \<Rightarrow> MediaStream \<Rightarrow> (nat \<times> Hooks) option \<Rightarrow> Component \<Rightarrow> Component" where
  "startedWith env plat ms l st =
     st\<lparr>hooks := (hooks st)\<lparr>isRecording := True, stream := Some ms, error := None,
                            hasRecording := False, recordingTime := 0\<rparr>,
        mediaRecorderRef :=
          Some \<lparr>recorderStream = ms,
                requestedMimeType = recorderOptions plat (recordSource env),
                mimeType = reportedMimeType plat (recorderOptions plat (recordSource env)),
                state = Recording, stopQueued = False, onstopEnv = env\<rparr>,
        videoRef :=
          map_option
            (\<lambda>v. if recordSource env \<noteq> Audio
                  then v\<lparr>src := None, srcObject := Some ms, controls := False, muted := True\<rparr>
                  else v\<lparr>src := None, srcObject := None, controls := False\<rparr>)
            (videoRef st),
        recordedChunks := [],
        timerIntervalRef := Some (nextIntervalId st),
        videoFile := None,
        onended := l,
        liveTracks := liveTracks st \<union> trackIds ms,
        activeIntervals := insert (nextIntervalId st) (activeIntervals st),
        nextIntervalId := nextIntervalId st + 1\<rparr>"

text \<open>The track identifiers of an optional stream, and the interval a truthy ref names.\<close>

definition idsOf :: "MediaStream option \<Rightarrow> nat set" where
  "idsOf s = (case s of None \<Rightarrow> {} | Some ms \<Rightarrow> trackIds ms)"

definition timerOf :: "nat option \<Rightarrow> nat set" where
  "timerOf r = (case r of None \<Rightarrow> {} | Some i \<Rightarrow> if i \<noteq> 0 then {i} else {})"

section \<open>Guide generation (\<^verbatim>\<open>geminiService.generateGuide\<close>, \<^verbatim>\<open>App.handleGenerate\<close>)\<close>

text \<open>The output formats of \<^verbatim>\<open>types.ts\<close>: \<^verbatim>\<open>'guide' | 'article'\<close>.\<close>

datatype OutputFormat = Guide | Article

text \<open>
  A request to \<^verbatim>\<open>ai.models.generateContent\<close>: the model and the parts of its one
  content, each a text or inline data with a mime type and base64 data (\<open>None\<close> for
  \<^verbatim>\<open>undefined\<close>).
\<close>

datatype Part = TextPart string | InlineData string "string option"

record GenerateContentRequest =
  model :: string
  parts :: "Part list"

text \<open>Base64 of a byte list, as \<^verbatim>\<open>FileReader.readAsDataURL\<close> writes it.\<close>

definition base64Digit :: "nat \<Rightarrow> char" where
  "base64Digit n =
     ''ABCDEFGHIJKLMNOPQRSTUVWXYZabcdefghijklmnopqrstuvwxyz0123456789+/'' ! n"

fun base64 :: "byte list \<Rightarrow> string" where
  "base64 [] = []"
| "base64 [a] =
     [base64Digit (unat a div 4), base64Digit (unat a mod 4 * 16), CHR ''='', CHR ''='']"
| "base64 [a, b] =
     [base64Digit (unat a div 4), base64Digit (unat a mod 4 * 16 + unat b div 16),
      base64Digit (unat b mod 16 * 4), CHR ''='']"
| "base64 (a # b # c # rest) =
     [base64Digit (unat a div 4), base64Digit (unat a mod 4 * 16 + unat b div 16),
      base64Digit (unat b mod 16 * 4 + unat c div 64), base64Digit (unat c mod 64)]
     @ base64 rest"

definition readAsDataURL :: "File \<Rightarrow> string" where
  "readAsDataURL f =
     ''data:'' @ (if fileType f = [] then ''application/octet-stream'' else fileType f)
       @ '';base64,'' @ base64 (fileData f)"

text \<open>\<^verbatim>\<open>s.split(c)\<close> for a one-character separator.\<close>

fun split :: "char \<Rightarrow> string \<Rightarrow> string list" where
  "split c [] = [[]]"
| "split c (x # xs) =
     (if x = c then [] # split c xs
      else (case split c xs of [] \<Rightarrow> [[x]] | s # ss \<Rightarrow> (x # s) # ss))"

text \<open>
  \<^verbatim>\<open>fileToBase64\<close>: the promise resolves with \<^verbatim>\<open>result.split(',')[1]\<close>. Called with
  \<^verbatim>\<open>undefined\<close> (\<open>None\<close>), \<^verbatim>\<open>reader.readAsDataURL\<close> throws a \<^verbatim>\<open>TypeError\<close> and the
  promise is rejected.
\<close>

definition fileToBase64 :: "File option \<Rightarrow> Thrown + string option" where
  "fileToBase64 file =
     (case file of
        None \<Rightarrow> Inl (ErrorObject ''TypeError'' ''parameter 1 is not of type Blob'')
      | Some f \<Rightarrow>
          (case split (CHR '','') (readAsDataURL f) of
             first # second # rest \<Rightarrow> Inr (Some second)
           | _ \<Rightarrow> Inr None))"

text \<open>The fixed text of the prompt template, cut at its five holes.\<close>

definition promptToFileName :: string where
  \<open>promptToFileName =
     ''\<newline>'' @
     ''# Agent Identity: ScreenGuide\<newline>'' @
     ''You are ScreenGuide, an AI agent specializing in transforming screen recordings into high-quality documentation for software tutorials, educational content, how-to-guides, and process documentation.\<newline>'' @
     ''\<newline>'' @
     ''# Core Responsibilities\<newline>'' @
     ''- **Analyze and Transcribe:** Analyze the provided video, including visual information (UI elements, clicks, inputs, on-screen changes) and spoken audio, to create a chronological sequence of steps.\<newline>'' @
     ''- **Synthesize Content:** Summarize and synthesize the information into the requested output format.\<newline>'' @
     ''- **Formatting:** Use markdown extensively for readability. This includes headings, subheadings, lists (numbered and bulleted), and bold text to create a well-structured and easy-to-read document.\<newline>'' @
     ''- **Visual Enhancement:** To make the guide more engaging and easier to follow, represent UI elements with simple ASCII art (e.g., `( Save Changes ) `, `[ Enter your name... ]`) and suggest where screenshots would be helpful using placeholders like `[Image: A screenshot of the main dashboard after login.]`.\<newline>'' @
     ''- **Objectivity:** Ensure the generated guide is objective, factual, and does not reflect any bias.\<newline>'' @
     ''- **Handle Uncertainty:** If you encounter ambiguous information or are not confident in your interpretation of a step from the video, clearly mark that section for human review (e.g., "[Review needed: The specific menu item clicked was unclear in the video.]").\<newline>'' @
     ''\<newline>'' @
     ''# Task for this Request\<newline>'' @
     ''- **Input Video:** You are being provided a screen recording named "''\<close>

definition promptToTranscription :: string where
  \<open>promptToTranscription =
     ''". Your primary task is to analyze its visual and audio content to generate the documentation.\<newline>'' @
     ''- **Video Transcription (for reference only):** The following is a machine-generated transcription of the audio from the video. Use this as a supplementary reference, but rely on your direct analysis of the video's audio and visuals as the primary source of truth.\<newline>'' @
     ''```\<newline>''\<close>

definition promptToDescription :: string where
  \<open>promptToDescription =
     ''\<newline>'' @
     ''```\<newline>'' @
     ''- **Video Description:** The user has provided the following description of the video content: "''\<close>

definition promptToFormat :: string where
  \<open>promptToFormat =
     ''"\<newline>'' @
     ''- **Requested Output Format:** Your task is to generate ''\<close>

definition promptToInstructions :: string where
  \<open>promptToInstructions =
     '' based on the video's content.\<newline>'' @
     ''- **User Instructions:** Adapt your tone, language, and focus based on the following user-provided context: "''\<close>

definition promptRest :: string where
  \<open>promptRest =
     ''"\<newline>'' @
     ''\<newline>'' @
     ''# Final Output Rules\<newline>'' @
     ''- The entire output must be in markdown format.\<newline>'' @
     ''- The content must be clear, concise, and easy for the intended audience to follow.\<newline>'' @
     ''- **Incorporate Visuals:** Use ASCII art for UI elements and `[Image: ...]` placeholders where a screenshot would clarify a complex step or significant visual change.\<newline>'' @
     ''- **Crucially, do not mention that you are an AI or that you analyzed a video.** Just provide the guide or article directly, as if you are the human author of the document.\<newline>'' @
     ''  ''\<close>

definition formatText :: "OutputFormat \<Rightarrow> string" where
  "formatText outputFormat =
     (if outputFormat = Guide then ''a detailed step-by-step guide with numbered steps''
      else ''a concise knowledge base article with clear headings and sections'')"

text \<open>\<^verbatim>\<open>s || placeholder\<close> on strings: the placeholder when \<open>s\<close> is empty.\<close>

definition orElse :: "string \<Rightarrow> string \<Rightarrow> string" where
  "orElse s placeholder = (if s = [] then placeholder else s)"

definition fullPrompt :: "string \<Rightarrow> OutputFormat \<Rightarrow> string \<Rightarrow> string \<Rightarrow> string \<Rightarrow> string" where
  "fullPrompt userPrompt outputFormat fileName' videoDescription transcribedText =
     promptToFileName @ fileName'
     @ promptToTranscription @ orElse transcribedText ''No transcription was provided.''
     @ promptToDescription @ orElse videoDescription ''No description provided.''
     @ promptToFormat @ formatText outputFormat
     @ promptToInstructions @ orElse userPrompt ''No additional instructions provided.''
     @ promptRest"

text \<open>
  \<^verbatim>\<open>generateGuide\<close>. The remote model is the function \<open>api\<close> from a request to what the
  call throws or the text it returns. The result is what \<^verbatim>\<open>generateGuide\<close> throws
  or returns, with the requests it has sent. The last parameter is an option because the
  caller can leave it out; the parameters \<^verbatim>\<open>fileName\<close> and \<^verbatim>\<open>videoFile\<close> are
  written \<open>fileName'\<close> and \<open>videoFile'\<close>.
\<close>

definition generateGuideFailure :: Thrown where
  "generateGuideFailure =
     ErrorObject ''Error''
       ''Failed to generate guide. Please check your API key and network connection.''"

definition generateGuide ::
  "(GenerateContentRequest \<Rightarrow> Thrown + string) \<Rightarrow> string \<Rightarrow> OutputFormat \<Rightarrow> string \<Rightarrow> string
     \<Rightarrow> string \<Rightarrow> File option \<Rightarrow> (Thrown + string) \<times> GenerateContentRequest list" where
  "generateGuide api userPrompt outputFormat fileName' videoDescription transcribedText videoFile' =
     (case fileToBase64 videoFile' of
        Inl e \<Rightarrow> (Inl generateGuideFailure, [])
      | Inr base64Video \<Rightarrow>
          (case videoFile' of
             None \<Rightarrow> (Inl generateGuideFailure, [])
           | Some f \<Rightarrow>
               (let videoPart = InlineData (fileType f) base64Video;
                    textPart = TextPart (fullPrompt userPrompt outputFormat fileName'
                                           videoDescription transcribedText);
                    request = \<lparr>model = ''gemini-2.5-pro'', parts = [textPart, videoPart]\<rparr>
                in case api request of
                     Inl e \<Rightarrow> (Inl generateGuideFailure, [request])
                   | Inr text \<Rightarrow> (Inr text, [request]))))"

text \<open>
  The state of \<^verbatim>\<open>App\<close> (its \<^verbatim>\<open>videoFile\<close> and \<^verbatim>\<open>error\<close> are named \<open>appVideoFile\<close>
  and \<open>appError\<close> here).
\<close>

record App =
  appVideoFile :: "File option"
  videoDescription :: string
  transcribedText :: string
  userPrompt :: string
  outputFormat :: OutputFormat
  isLoading :: bool
  generatedOutput :: string
  appError :: string

text \<open>
  \<^verbatim>\<open>handleGenerate\<close>. It calls \<^verbatim>\<open>generateGuide\<close> with five arguments:
  \<^verbatim>\<open>generateGuide(userPrompt, outputFormat, videoFile.name, videoDescription,
  transcribedText)\<close>, so the sixth parameter is \<^verbatim>\<open>undefined\<close>.
\<close>

definition handleGenerate ::
  "(GenerateContentRequest \<Rightarrow> Thrown + string) \<Rightarrow> App \<Rightarrow> App \<times> GenerateContentRequest list" where
  "handleGenerate api app =
     (case appVideoFile app of
        None \<Rightarrow> (app\<lparr>appError := ''Please upload a video file first.''\<rparr>, [])
      | Some videoFile' \<Rightarrow>
          (let app1 = app\<lparr>isLoading := True, appError := [], generatedOutput := []\<rparr>;
               (result, sent) =
                 generateGuide api (userPrompt app) (outputFormat app) (fileName videoFile')
                   (videoDescription app) (transcribedText app) None;
               app2 = (case result of
                         Inr text \<Rightarrow> app1\<lparr>generatedOutput := text\<rparr>
                       | Inl (ErrorObject name message) \<Rightarrow>
                           app1\<lparr>appError := ''An error occurred: '' @ message\<rparr>
                       | Inl NonError \<Rightarrow> app1\<lparr>appError := ''An unknown error occurred.''\<rparr>)
           in (app2\<lparr>isLoading := False\<rparr>, sent)))"

section \<open>Concrete inputs\<close>

text \<open>
  Inputs at which the theorems below are instantiated: a platform that grants every
  request (user media as stream 7 with video track 1 and audio track 2, the display as
  stream 8 with video track 3 and system audio track 4) and supports every mime type, the
  component with another source selected, some chunks, and some uploaded files.
\<close>

definition grantsAll :: Platform where
  "grantsAll =
     \<lparr>userMediaOutcome = Inr (7, 1, 2),
      displayMediaOutcome = Inr (8, 3, Some 4),
      isTypeSupported = (\<lambda>m. True),
      reportedMimeType = (\<lambda>opts. case opts of None \<Rightarrow> ''video/x-matroska;codecs=avc1,opus''
                                    | Some m \<Rightarrow> m)\<rparr>"

definition screenSelected :: Component where
  "screenSelected = handleSourceChange (hooks mounted) Screen mounted"

definition audioSelected :: Component where
  "audioSelected = handleSourceChange (hooks mounted) Audio mounted"

definition chunkA :: Blob where
  "chunkA = \<lparr>blobData = [26, 69, 223, 163], blobType = ''video/webm''\<rparr>"

definition chunkB :: Blob where
  "chunkB = \<lparr>blobData = [31, 67], blobType = ''video/webm''\<rparr>"

definition emptyChunk :: Blob where
  "emptyChunk = \<lparr>blobData = [], blobType = ''video/webm''\<rparr>"

definition oldSelection :: InputSection where
  "oldSelection =
     \<lparr>selectedVideoFile = Some \<lparr>fileName = ''old.mp4'', fileType = ''video/mp4'', fileData = [1, 2]\<rparr>,
      uploadError = None\<rparr>"

definition pngFile :: File where
  "pngFile = \<lparr>fileName = ''shot.png'', fileType = ''image/png'', fileData = [137, 80]\<rparr>"

definition hugeVideo :: File where
  "hugeVideo = \<lparr>fileName = ''huge.webm'', fileType = ''video/webm'',
                 fileData = replicate (500 * 1024 * 1024 + 1) 0\<rparr>"

definition limitVideo :: File where
  "limitVideo = \<lparr>fileName = ''limit.webm'', fileType = ''video/webm'',
                  fileData = replicate (500 * 1024 * 1024) 0\<rparr>"

definition noCodecSupport :: Platform where
  "noCodecSupport = grantsAll\<lparr>isTypeSupported := (\<lambda>m. False)\<rparr>"

definition reportsNoType :: Platform where
  "reportsNoType = grantsAll\<lparr>reportedMimeType := (\<lambda>opts. [])\<rparr>"

definition micDenied :: Platform where
  "micDenied = grantsAll\<lparr>userMediaOutcome := Inl (ErrorObject ''NotAllowedError'' ''Permission denied'')\<rparr>"

definition grantsAgain :: Platform where
  "grantsAgain = grantsAll\<lparr>userMediaOutcome := Inr (9, 5, 6)\<rparr>"

text \<open>
  Two clicks on the start button while the first acquisition is pending. After the first
  click the component is rendered (\<open>afterFirstClick\<close>); the second click runs the
  handler of that render; then the first acquisition settles (stream 7), then the second
  (stream 9). In \<open>doubleStart\<close> both continuations run before the next render, in
  \<open>doubleStartRendered\<close> a render comes between them.
\<close>

definition afterFirstClick :: Component where
  "afterFirstClick = commit (startRequested mounted)"

definition afterSecondClick :: Component where
  "afterSecondClick = commit (startRequested afterFirstClick)"

definition doubleStart :: Component where
  "doubleStart =
     commit (startResumed (hooks afterFirstClick) grantsAgain
               (startResumed (hooks mounted) grantsAll afterSecondClick))"

definition doubleStartRendered :: Component where
  "doubleStartRendered =
     commit (startResumed (hooks afterFirstClick) grantsAgain
               (commit (startResumed (hooks mounted) grantsAll afterSecondClick)))"

definition recordingNow :: Component where
  "recordingNow = chunksArrive [chunkA] (clickStart grantsAll mounted)"

definition demoApp :: App where
  "demoApp =
     \<lparr>appVideoFile = Some \<lparr>fileName = ''demo.webm'', fileType = ''video/webm'',
                             fileData = [26, 69, 223]\<rparr>,
      videoDescription = ''Filtering the dashboard'',
      transcribedText = [],
      userPrompt = [],
      outputFormat = Guide,
      isLoading = False,
      generatedOutput = [],
      appError = []\<rparr>"

definition answering :: "GenerateContentRequest \<Rightarrow> Thrown + string" where
  "answering request = Inr ''# Guide''"

section \<open>Properties of the upload validation\<close>

lemma startsWith_take: "startsWith s p = (take (length p) s = p)"
  by (induction s p rule: startsWith.induct) auto

text \<open>
  Claim C10. A file handed to the upload picker or dropped on the drop zone becomes the
  selected video file exactly when its type starts with \<^verbatim>\<open>video/\<close> and its size is at
  most 500 * 1024 * 1024 bytes (the submission is then accepted with no upload error).
  Otherwise the previously selected file is kept, and the upload error names the cause:
  the type message when the type is wrong, the size message when only the size is.
\<close>

theorem validateAndSetFile_accepts_iff:
  "handleFileChange (f # rest) st = validateAndSetFile f st
   \<and> handleDrop (f # rest) st = validateAndSetFile f st
   \<and> ((selectedVideoFile (validateAndSetFile f st) = Some f
        \<and> uploadError (validateAndSetFile f st) = None)
       = (startsWith (fileType f) ''video/'' \<and> fileSize f \<le> 500 * 1024 * 1024))
   \<and> (\<not> startsWith (fileType f) ''video/'' \<longrightarrow>
        selectedVideoFile (validateAndSetFile f st) = selectedVideoFile st
        \<and> uploadError (validateAndSetFile f st)
            = Some ''Invalid file type. Please upload a video file.'')
   \<and> (startsWith (fileType f) ''video/'' \<and> 500 * 1024 * 1024 < fileSize f \<longrightarrow>
        selectedVideoFile (validateAndSetFile f st) = selectedVideoFile st
        \<and> uploadError (validateAndSetFile f st)
            = Some ''File exceeds 500MB limit. Please choose a smaller video.'')"
  by (simp add: validateAndSetFile_def handleFileChange_def handleDrop_def MAX_FILE_SIZE_def
      Let_def)

text \<open>
  The theorem at three submissions made while \<^verbatim>\<open>old.mp4\<close> is selected: a PNG image is
  refused for its type, a video of 500 * 1024 * 1024 + 1 bytes is refused for its size, and
  a video of exactly 500 * 1024 * 1024 bytes replaces the selection.
\<close>

theorem validateAndSetFile_accepts_iff_witness:
  "\<not> startsWith (fileType pngFile) ''video/''
   \<and> selectedVideoFile (validateAndSetFile pngFile oldSelection) = selectedVideoFile oldSelection
   \<and> uploadError (validateAndSetFile pngFile oldSelection)
       = Some ''Invalid file type. Please upload a video file.''
   \<and> startsWith (fileType hugeVideo) ''video/'' \<and> 500 * 1024 * 1024 < fileSize hugeVideo
   \<and> selectedVideoFile (handleDrop [hugeVideo] oldSelection) = selectedVideoFile oldSelection
   \<and> uploadError (handleDrop [hugeVideo] oldSelection)
       = Some ''File exceeds 500MB limit. Please choose a smaller video.''
   \<and> startsWith (fileType limitVideo) ''video/'' \<and> fileSize limitVideo \<le> 500 * 1024 * 1024
   \<and> selectedVideoFile (handleFileChange [limitVideo] oldSelection) = Some limitVideo
   \<and> uploadError (handleFileChange [limitVideo] oldSelection) = None"
proof -
  have png: "\<not> startsWith (fileType pngFile) ''video/''"
    by (simp add: pngFile_def)
  have huge: "startsWith (fileType hugeVideo) ''video/'' \<and> 500 * 1024 * 1024 < fileSize hugeVideo"
    by (simp add: hugeVideo_def fileSize_def)
  have limit: "startsWith (fileType limitVideo) ''video/'' \<and> fileSize limitVideo \<le> 500 * 1024 * 1024"
    by (simp add: limitVideo_def fileSize_def)
  show ?thesis
    using png huge limit
      validateAndSetFile_accepts_iff [of pngFile "[]" oldSelection]
      validateAndSetFile_accepts_iff [of hugeVideo "[]" oldSelection]
      validateAndSetFile_accepts_iff [of limitVideo "[]" oldSelection]
    by simp
qed

section \<open>The recorder: acquisition and start\<close>

lemma micStream_shape:
  "getUserMedia plat False True = Inr mic \<Longrightarrow>
     \<exists>sid a. mic = \<lparr>streamId = sid, tracks = [\<lparr>trackId = a, trackKind = AudioKind\<rparr>]\<rparr>"
  by (auto simp: getUserMedia_def split: sum.splits)

lemma displayStream_video:
  "getDisplayMedia plat = Inr d \<Longrightarrow>
     \<exists>v rest. getVideoTracks d = \<lparr>trackId = v, trackKind = VideoKind\<rparr> # rest \<and> v \<in> trackIds d"
  by (auto simp: getDisplayMedia_def getVideoTracks_def trackIds_def split: sum.splits option.splits)

lemma addMicrophone_Inr:
  assumes "addMicrophone plat d st = Inr (ms, st')"
  shows "\<exists>mic. getUserMedia plat False True = Inr mic \<and> st' = grant mic st
           \<and> trackIds ms = trackIds d \<union> trackIds mic \<and> getVideoTracks ms = getVideoTracks d"
proof -
  from assms obtain mic where mic: "getUserMedia plat False True = Inr mic"
    by (auto simp: addMicrophone_def split: sum.splits)
  from micStream_shape [OF mic] obtain sid a
    where shape: "mic = \<lparr>streamId = sid, tracks = [\<lparr>trackId = a, trackKind = AudioKind\<rparr>]\<rparr>"
    by blast
  from assms mic shape have ms: "ms = addTrack \<lparr>trackId = a, trackKind = AudioKind\<rparr> d"
    and st': "st' = grant mic st"
    by (simp_all add: addMicrophone_def getAudioTracks_def)
  have "trackIds ms = trackIds d \<union> trackIds mic"
    unfolding ms shape by (force simp: addTrack_def trackIds_def)
  moreover have "getVideoTracks ms = getVideoTracks d"
    unfolding ms by (simp add: addTrack_def getVideoTracks_def)
  ultimately show ?thesis using mic st' by blast
qed

text \<open>What a successful acquisition leaves: the granted tracks live, the listener set.\<close>

lemma acquire_Inr:
  assumes "acquire env plat st = Inr (ms, st')"
  shows "\<exists>l. st' = st\<lparr>liveTracks := liveTracks st \<union> trackIds ms, onended := l\<rparr>
           \<and> (recordSource env = Screen \<longrightarrow> (\<exists>t. l = Some (t, env) \<and> t \<in> trackIds ms))
           \<and> (recordSource env \<noteq> Screen \<longrightarrow> l = onended st)"
proof (cases "recordSource env")
  case Camera
  with assms show ?thesis
    by (auto simp: acquire_def grant_def split: sum.splits)
next
  case Audio
  with assms show ?thesis
    by (auto simp: acquire_def grant_def split: sum.splits)
next
  case Screen
  from assms Screen obtain d where d: "getDisplayMedia plat = Inr d"
    by (auto simp: acquire_def split: sum.splits)
  from displayStream_video [OF d] obtain v rest
    where v: "getVideoTracks d = \<lparr>trackId = v, trackKind = VideoKind\<rparr> # rest" "v \<in> trackIds d"
    by blast
  show ?thesis
  proof (cases "includeMic env")
    case False
    with assms Screen d v show ?thesis
      by (auto simp: acquire_def grant_def listenForEnded_def)
  next
    case True
    with assms Screen d obtain st1 where
      am: "addMicrophone plat d (grant d st) = Inr (ms, st1)" and st': "st' = listenForEnded env ms st1"
      by (auto simp: acquire_def split: sum.splits)
    from addMicrophone_Inr [OF am] obtain mic where
      mic: "st1 = grant mic (grant d st)" "trackIds ms = trackIds d \<union> trackIds mic"
        "getVideoTracks ms = getVideoTracks d"
      by blast
    with st' v Screen show ?thesis
      by (auto simp: grant_def listenForEnded_def Un_assoc)
  qed
qed

lemma acquire_outcome_independent:
  "acquire env plat st = Inr (ms, st') \<Longrightarrow> \<exists>st''. acquire env plat st0 = Inr (ms, st'')"
  by (auto simp: acquire_def addMicrophone_def split: sum.splits if_splits list.splits)

lemma acquiredTracks_Inr:
  assumes "acquire env plat st = Inr (ms, st')"
  shows "acquiredTracks env plat = trackIds ms"
proof -
  from acquire_outcome_independent [OF assms] obtain st'' where
    m: "acquire env plat mounted = Inr (ms, st'')" by blast
  from acquire_Inr [OF m] have "liveTracks st'' = liveTracks mounted \<union> trackIds ms"
    by auto
  with m show ?thesis by (simp add: acquiredTracks_def mounted_def)
qed


lemma newMediaRecorder_recorderOptions:
  "newMediaRecorder plat ms (recorderOptions plat source) env =
     Inr \<lparr>recorderStream = ms, requestedMimeType = recorderOptions plat source,
          mimeType = reportedMimeType plat (recorderOptions plat source), state = Inactive,
          stopQueued = False, onstopEnv = env\<rparr>"
  by (simp add: newMediaRecorder_def recorderOptions_def preferredMimeType_def Let_def)

lemma catchStart_not_recording: "\<not> isRecording (hooks (catchStart env err st))"
  by (simp add: catchStart_def setIsRecording_def)

lemma handleStartRecording_acquired:
  assumes "acquire env plat st0 = Inr (ms, st0')"
  shows "\<exists>l. (recordSource env = Screen \<longrightarrow> (\<exists>t. l = Some (t, env) \<and> t \<in> trackIds ms))
    \<and> (recordSource env \<noteq> Screen \<longrightarrow> l = onended st)
    \<and> handleStartRecording env plat st = startedWith env plat ms l st"
proof -
  define p where "p = resetPreview (setRecordingTime 0
      ((setHasRecording False (setVideoFile None (setError None st)))\<lparr>recordedChunks := []\<rparr>))"
  have unfold: "handleStartRecording env plat st =
      (case acquire env plat p of
         Inl (err, st7) \<Rightarrow> catchStart env err st7
       | Inr (mediaStream, st7) \<Rightarrow>
           (case startRecorder env plat mediaStream st7 of
              Inl (err, st8) \<Rightarrow> catchStart env err st8
            | Inr st8 \<Rightarrow> st8))"
    by (simp add: handleStartRecording_def p_def Let_def)
  from acquire_outcome_independent [OF assms] obtain st7
    where acq: "acquire env plat p = Inr (ms, st7)" by blast
  from acquire_Inr [OF acq] obtain l where
    st7: "st7 = p\<lparr>liveTracks := liveTracks p \<union> trackIds ms, onended := l\<rparr>" and
    l: "recordSource env = Screen \<longrightarrow> (\<exists>t. l = Some (t, env) \<and> t \<in> trackIds ms)" and
    l': "recordSource env \<noteq> Screen \<longrightarrow> l = onended p"
    by blast
  have "onended p = onended st"
    by (simp add: p_def resetPreview_def setRecordingTime_def setHasRecording_def
        setVideoFile_def setError_def)
  with l' have l'': "recordSource env \<noteq> Screen \<longrightarrow> l = onended st" by simp
  have "handleStartRecording env plat st =
      (case startRecorder env plat ms st7 of
              Inl (err, st8) \<Rightarrow> catchStart env err st8
            | Inr st8 \<Rightarrow> st8)"
    unfolding unfold by (simp add: acq)
  also have "\<dots> = startedWith env plat ms l st"
    unfolding st7 p_def startedWith_def
    by (cases "videoRef st")
       (simp_all add: startRecorder_def newMediaRecorder_recorderOptions Let_def setStream_def
          setIsRecording_def setInterval_def resetPreview_def setRecordingTime_def
          setHasRecording_def setVideoFile_def setError_def)
  finally show ?thesis
    using l l'' by blast
qed

lemma handleStartRecording_failed:
  assumes "acquire env plat st0 = Inl (err, st0')"
  shows "\<not> isRecording (hooks (handleStartRecording env plat st))"
proof -
  define p where "p = resetPreview (setRecordingTime 0
      ((setHasRecording False (setVideoFile None (setError None st)))\<lparr>recordedChunks := []\<rparr>))"
  have "\<exists>st'. acquire env plat p = Inl (err, st')"
    using assms
    by (auto simp: acquire_def addMicrophone_def split: sum.splits if_splits list.splits)
  then obtain st' where "acquire env plat p = Inl (err, st')" by blast
  then have "handleStartRecording env plat st = catchStart env err st'"
    by (simp add: handleStartRecording_def p_def Let_def)
  then show ?thesis
    by (simp add: catchStart_not_recording)
qed

lemma acquisitionSucceeds_iff:
  "acquisitionSucceeds env plat = (\<exists>ms st'. acquire env plat mounted = Inr (ms, st'))"
  by (auto simp: acquisitionSucceeds_def split: sum.splits)

text \<open>Recording starts exactly when the acquisition yields a stream.\<close>

lemma isRecording_iff_acquired:
  "isRecording (hooks (handleStartRecording env plat st)) = acquisitionSucceeds env plat"
proof (cases "acquire env plat mounted")
  case (Inl failed)
  then obtain err st' where "acquire env plat mounted = Inl (err, st')"
    by (cases failed) simp
  from handleStartRecording_failed [OF this] Inl show ?thesis
    by (simp add: acquisitionSucceeds_def)
next
  case (Inr granted)
  then obtain ms st' where acq: "acquire env plat mounted = Inr (ms, st')"
    by (cases granted) simp
  from handleStartRecording_acquired [OF acq, of st] acq show ?thesis
    by (auto simp: acquisitionSucceeds_iff startedWith_def)
qed

lemma handleStartRecording_started:
  assumes "isRecording (hooks (handleStartRecording env plat st))"
  shows "\<exists>ms l. acquiredTracks env plat = trackIds ms
    \<and> (recordSource env = Screen \<longrightarrow> (\<exists>t. l = Some (t, env) \<and> t \<in> trackIds ms))
    \<and> handleStartRecording env plat st = startedWith env plat ms l st"
proof -
  from assms obtain ms st' where acq: "acquire env plat mounted = Inr (ms, st')"
    by (auto simp: isRecording_iff_acquired acquisitionSucceeds_iff)
  from handleStartRecording_acquired [OF acq, of st] acquiredTracks_Inr [OF acq]
  show ?thesis by blast
qed

lemma chunksArrive_eq:
  "chunksArrive chunks st =
     st\<lparr>recordedChunks := recordedChunks st @ filter (\<lambda>c. 0 < blobSize c) chunks\<rparr>"
  unfolding chunksArrive_def
  by (induction chunks arbitrary: st) (simp_all add: ondataavailable_def)

lemma concat_nonempty_chunks:
  "concat (map blobData (filter (\<lambda>c. 0 < blobSize c) chunks)) = concat (map blobData chunks)"
  by (induction chunks) (simp_all add: blobSize_def)

lemma commit_same: "stream (hooks st) = effectStream st \<Longrightarrow> commit st = st"
  by (simp add: commit_def)

lemma stopTracks_eq: "stopTracks s st = st\<lparr>liveTracks := liveTracks st - idsOf s\<rparr>"
  by (cases s) (simp_all add: stopTracks_def idsOf_def trackIds_def getTracks_def)

lemma onstop_eq:
  "onstop env st =
     st\<lparr>hooks := (hooks st)\<lparr>isRecording := False, stream := None, hasRecording := True\<rparr>,
        videoFile := Some (newFile [newBlob (recordedChunks st) (artifactMimeType env st)]
                             (recordingFileName (recordSource env)) (artifactMimeType env st)),
        videoRef := (if recordSource env \<noteq> Audio then
                       map_option
                         (\<lambda>v. v\<lparr>srcObject := None,
                                src := Some (newBlob (recordedChunks st) (artifactMimeType env st)),
                                muted := False, controls := True\<rparr>)
                         (videoRef st)
                     else videoRef st),
        liveTracks := liveTracks st - idsOf (stream env)\<rparr>"
  by (simp add: onstop_def stopTracks_eq setVideoFile_def setHasRecording_def setStream_def
      setIsRecording_def artifactMimeType_def Let_def)

lemma commit_changed:
  "stream (hooks st) \<noteq> effectStream st \<Longrightarrow>
   commit st =
     st\<lparr>liveTracks := liveTracks st - idsOf (effectStream st),
        activeIntervals := activeIntervals st - timerOf (timerIntervalRef st),
        effectStream := stream (hooks st)\<rparr>"
  by (cases "timerIntervalRef st")
     (simp_all add: commit_def effectCleanup_def stopTracks_eq truthy_def clearInterval_def
        timerOf_def Let_def)

lemma recorderStops_queued:
  assumes "mediaRecorderRef st = Some r" "stopQueued r" "effectStream st = Some ms"
  shows "recorderStops lastData st =
     st\<lparr>hooks := (hooks st)\<lparr>isRecording := False, stream := None, hasRecording := True\<rparr>,
        mediaRecorderRef := Some (r\<lparr>stopQueued := False\<rparr>),
        recordedChunks := recordedChunks st @ filter (\<lambda>c. 0 < blobSize c) [lastData],
        videoFile :=
          Some (newFile
                  [newBlob (recordedChunks st @ filter (\<lambda>c. 0 < blobSize c) [lastData])
                     (if mimeType r \<noteq> [] then mimeType r
                      else defaultMimeType (recordSource (onstopEnv r)))]
                  (recordingFileName (recordSource (onstopEnv r)))
                  (if mimeType r \<noteq> [] then mimeType r
                   else defaultMimeType (recordSource (onstopEnv r)))),
        videoRef := (if recordSource (onstopEnv r) \<noteq> Audio then
                       map_option
                         (\<lambda>v. v\<lparr>srcObject := None,
                                src := Some (newBlob
                                  (recordedChunks st @ filter (\<lambda>c. 0 < blobSize c) [lastData])
                                  (if mimeType r \<noteq> [] then mimeType r
                                   else defaultMimeType (recordSource (onstopEnv r)))),
                                muted := False, controls := True\<rparr>)
                         (videoRef st)
                     else videoRef st),
        liveTracks := liveTracks st - idsOf (stream (onstopEnv r)) - trackIds ms,
        activeIntervals := activeIntervals st - timerOf (timerIntervalRef st),
        effectStream := None\<rparr>"
proof -
  define x where "x = onstop (onstopEnv r)
      ((ondataavailable lastData st)\<lparr>mediaRecorderRef := Some (r\<lparr>stopQueued := False\<rparr>)\<rparr>)"
  have task: "recorderStopTask lastData st = x"
    using assms by (simp add: recorderStopTask_def x_def)
  have od: "ondataavailable lastData st =
      st\<lparr>recordedChunks := recordedChunks st @ filter (\<lambda>c. 0 < blobSize c) [lastData]\<rparr>"
    by (simp add: ondataavailable_def)
  have ne: "stream (hooks x) \<noteq> effectStream x"
    using assms by (simp add: x_def onstop_eq od)
  show ?thesis
    unfolding recorderStops_def task commit_changed [OF ne]
    using assms
    by (simp add: x_def onstop_eq od artifactMimeType_def idsOf_def)
qed


text \<open>While the recorder records, \<^verbatim>\<open>handleStopRecording\<close> never reads its render.\<close>

lemma handleStopRecording_recording:
  assumes "mediaRecorderRef st = Some r" "state r = Recording"
  shows "handleStopRecording env st =
     st\<lparr>timerIntervalRef := (if truthy (timerIntervalRef st) then None else timerIntervalRef st),
        activeIntervals := activeIntervals st - timerOf (timerIntervalRef st),
        mediaRecorderRef := Some (r\<lparr>state := Inactive, stopQueued := True\<rparr>)\<rparr>"
  using assms
  by (cases "timerIntervalRef st")
     (simp_all add: handleStopRecording_def truthy_def clearInterval_def timerOf_def Let_def)

lemma timerOf_after_stop:
  "timerOf (if truthy t then None else t) = {}"
  by (cases t) (simp_all add: timerOf_def truthy_def)

lemma hooks_commit: "hooks (commit st) = hooks st"
  by (simp add: commit_def effectCleanup_def stopTracks_eq clearInterval_def Let_def
      split: option.splits)

text \<open>
  The stop sequence on a recording component: the stop handler of any render, run on the
  component with any set \<open>X\<close> of live tracks, followed by the recorder's stop task.
\<close>

lemma stopSequence_eq:
  assumes "stream (hooks s) = Some ms" "effectStream s = Some ms"
    "mediaRecorderRef s = Some r" "state r = Recording"
  shows "recorderStops lastData (commit (handleStopRecording env (s\<lparr>liveTracks := X\<rparr>))) =
     s\<lparr>hooks := (hooks s)\<lparr>isRecording := False, stream := None, hasRecording := True\<rparr>,
       mediaRecorderRef := Some (r\<lparr>state := Inactive, stopQueued := False\<rparr>),
       recordedChunks := recordedChunks s @ filter (\<lambda>c. 0 < blobSize c) [lastData],
       timerIntervalRef := (if truthy (timerIntervalRef s) then None else timerIntervalRef s),
       videoFile :=
         Some (newFile
                 [newBlob (recordedChunks s @ filter (\<lambda>c. 0 < blobSize c) [lastData])
                    (if mimeType r \<noteq> [] then mimeType r
                     else defaultMimeType (recordSource (onstopEnv r)))]
                 (recordingFileName (recordSource (onstopEnv r)))
                 (if mimeType r \<noteq> [] then mimeType r
                  else defaultMimeType (recordSource (onstopEnv r)))),
       videoRef := (if recordSource (onstopEnv r) \<noteq> Audio then
                      map_option
                        (\<lambda>v. v\<lparr>srcObject := None,
                               src := Some (newBlob
                                 (recordedChunks s @ filter (\<lambda>c. 0 < blobSize c) [lastData])
                                 (if mimeType r \<noteq> [] then mimeType r
                                  else defaultMimeType (recordSource (onstopEnv r)))),
                               muted := False, controls := True\<rparr>)
                        (videoRef s)
                    else videoRef s),
       liveTracks := X - idsOf (stream (onstopEnv r)) - trackIds ms,
       activeIntervals := activeIntervals s - timerOf (timerIntervalRef s),
       effectStream := None\<rparr>"
proof -
  define y where "y = handleStopRecording env (s\<lparr>liveTracks := X\<rparr>)"
  have y: "y = s\<lparr>liveTracks := X,
        timerIntervalRef := (if truthy (timerIntervalRef s) then None else timerIntervalRef s),
        activeIntervals := activeIntervals s - timerOf (timerIntervalRef s),
        mediaRecorderRef := Some (r\<lparr>state := Inactive, stopQueued := True\<rparr>)\<rparr>"
    unfolding y_def using assms
    by (simp add: handleStopRecording_recording [where r = r])
  have c: "commit y = y"
    using assms by (simp add: commit_same y)
  have "recorderStops lastData y = recorderStops lastData y" ..
  have q: "mediaRecorderRef y = Some (r\<lparr>state := Inactive, stopQueued := True\<rparr>)"
      "stopQueued (r\<lparr>state := Inactive, stopQueued := True\<rparr>)" "effectStream y = Some ms"
    using assms by (simp_all add: y)
  show ?thesis
    unfolding y_def [symmetric] c recorderStops_queued [OF q]
    by (simp add: y timerOf_after_stop)
qed

section \<open>The recording session\<close>

lemma clickStart_recording:
  assumes "isRecording (hooks (clickStart plat st))"
  shows "\<exists>ms l LT AI. acquiredTracks (hooks st) plat = trackIds ms
    \<and> (recordSource (hooks st) = Screen \<longrightarrow> (\<exists>t. l = Some (t, hooks st) \<and> t \<in> trackIds ms))
    \<and> LT \<subseteq> liveTracks st \<union> trackIds ms
    \<and> clickStart plat st =
        (startedWith (hooks st) plat ms l st)
          \<lparr>liveTracks := LT, activeIntervals := AI, effectStream := Some ms\<rparr>"
proof -
  from assms have "isRecording (hooks (handleStartRecording (hooks st) plat st))"
    by (simp add: clickStart_def hooks_commit)
  from handleStartRecording_started [OF this] obtain ms l where
    a: "acquiredTracks (hooks st) plat = trackIds ms" and
    l: "recordSource (hooks st) = Screen \<longrightarrow> (\<exists>t. l = Some (t, hooks st) \<and> t \<in> trackIds ms)" and
    h: "handleStartRecording (hooks st) plat st = startedWith (hooks st) plat ms l st"
    by blast
  define s1 where "s1 = startedWith (hooks st) plat ms l st"
  have s1: "stream (hooks s1) = Some ms" "effectStream s1 = effectStream st"
    "liveTracks s1 = liveTracks st \<union> trackIds ms"
    by (simp_all add: s1_def startedWith_def)
  have "\<exists>LT AI. LT \<subseteq> liveTracks st \<union> trackIds ms
      \<and> commit s1 = s1\<lparr>liveTracks := LT, activeIntervals := AI, effectStream := Some ms\<rparr>"
  proof (cases "effectStream st = Some ms")
    case True
    with s1 have "commit s1 = s1" by (simp add: commit_same)
    also have "\<dots> = s1\<lparr>liveTracks := liveTracks s1, activeIntervals := activeIntervals s1,
        effectStream := Some ms\<rparr>"
      using True s1 by simp
    finally show ?thesis using s1 by blast
  next
    case False
    with s1 have "stream (hooks s1) \<noteq> effectStream s1" by simp
    from commit_changed [OF this] s1 show ?thesis
      by (intro exI [of _ "liveTracks s1 - idsOf (effectStream s1)"]
          exI [of _ "activeIntervals s1 - timerOf (timerIntervalRef s1)"]) auto
  qed
  with a l h show ?thesis
    unfolding clickStart_def s1_def by auto
qed

text \<open>The session, from a start that reached recording, in closed form.\<close>

lemma recordingSession_eq:
  assumes "isRecording (hooks (clickStart plat st))"
  shows "\<exists>ms. acquiredTracks (hooks st) plat = trackIds ms
    \<and> liveTracks (recordingSession plat chunks lastData st) \<subseteq> liveTracks st - trackIds ms
    \<and> videoFile (recordingSession plat chunks lastData st) =
        Some (newFile
               [newBlob (filter (\<lambda>c. 0 < blobSize c) (chunks @ [lastData]))
                  (artifactMimeType (hooks st) (clickStart plat st))]
               (recordingFileName (recordSource (hooks st)))
               (artifactMimeType (hooks st) (clickStart plat st)))
    \<and> recordedChunks (recordingSession plat chunks lastData st)
        = filter (\<lambda>c. 0 < blobSize c) (chunks @ [lastData])
    \<and> hooks (recordingSession plat chunks lastData st)
        = (hooks st)\<lparr>isRecording := False, stream := None, error := None,
                      hasRecording := True, recordingTime := 0\<rparr>"
proof -
  from clickStart_recording [OF assms] obtain ms l LT AI where
    a: "acquiredTracks (hooks st) plat = trackIds ms" and
    LT: "LT \<subseteq> liveTracks st \<union> trackIds ms" and
    c: "clickStart plat st = (startedWith (hooks st) plat ms l st)
          \<lparr>liveTracks := LT, activeIntervals := AI, effectStream := Some ms\<rparr>"
    by blast
  define s where "s = chunksArrive chunks (clickStart plat st)"
  define r where "r = \<lparr>recorderStream = ms,
      requestedMimeType = recorderOptions plat (recordSource (hooks st)),
      mimeType = reportedMimeType plat (recorderOptions plat (recordSource (hooks st))),
      state = Recording, stopQueued = False, onstopEnv = hooks st\<rparr>"
  have s: "stream (hooks s) = Some ms" "effectStream s = Some ms" "mediaRecorderRef s = Some r"
    "state r = Recording" "recordedChunks s = filter (\<lambda>c. 0 < blobSize c) chunks"
    "liveTracks s = LT" "onstopEnv r = hooks st"
    "hooks s = (hooks st)\<lparr>isRecording := True, stream := Some ms, error := None,
                            hasRecording := False, recordingTime := 0\<rparr>"
    by (simp_all add: s_def r_def chunksArrive_eq c startedWith_def)
  have m: "artifactMimeType (hooks st) (clickStart plat st) =
      (if mimeType r \<noteq> [] then mimeType r else defaultMimeType (recordSource (onstopEnv r)))"
    by (simp add: artifactMimeType_def c startedWith_def r_def)
  have "recordingSession plat chunks lastData st =
      recorderStops lastData (commit (handleStopRecording (hooks s) (s\<lparr>liveTracks := liveTracks s\<rparr>)))"
    by (simp add: recordingSession_def clickStop_def s_def)
  note fin = this [unfolded stopSequence_eq [OF s(1-4)]]
  have "liveTracks (recordingSession plat chunks lastData st) \<subseteq> liveTracks st - trackIds ms"
    unfolding fin using LT s by auto
  moreover have "videoFile (recordingSession plat chunks lastData st) =
        Some (newFile
               [newBlob (filter (\<lambda>c. 0 < blobSize c) (chunks @ [lastData]))
                  (artifactMimeType (hooks st) (clickStart plat st))]
               (recordingFileName (recordSource (hooks st)))
               (artifactMimeType (hooks st) (clickStart plat st)))"
    unfolding fin m using s by simp
  moreover have "recordedChunks (recordingSession plat chunks lastData st)
        = filter (\<lambda>c. 0 < blobSize c) (chunks @ [lastData])"
    unfolding fin using s by simp
  moreover have "hooks (recordingSession plat chunks lastData st)
        = (hooks st)\<lparr>isRecording := False, stream := None, error := None,
                      hasRecording := True, recordingTime := 0\<rparr>"
    unfolding fin using s by simp
  ultimately show ?thesis using a by blast
qed


lemma starts_mounted: "isRecording (hooks (clickStart grantsAll mounted))"
  by (simp add: clickStart_def hooks_commit isRecording_iff_acquired acquisitionSucceeds_def
      acquire_def getUserMedia_def grantsAll_def mounted_def)

lemma starts_screen: "isRecording (hooks (clickStart grantsAll screenSelected))"
  by (simp add: clickStart_def hooks_commit isRecording_iff_acquired acquisitionSucceeds_def
      acquire_def getUserMedia_def getDisplayMedia_def addMicrophone_def getAudioTracks_def
      grantsAll_def mounted_def screenSelected_def handleSourceChange_def)

lemma starts_audio: "isRecording (hooks (clickStart grantsAll audioSelected))"
  by (simp add: clickStart_def hooks_commit isRecording_iff_acquired acquisitionSucceeds_def
      acquire_def getUserMedia_def grantsAll_def mounted_def audioSelected_def
      handleSourceChange_def)

lemma acquired_screen: "acquiredTracks (hooks screenSelected) grantsAll = {2, 3, 4}"
  by (auto simp: acquiredTracks_def acquire_def getUserMedia_def getDisplayMedia_def
      addMicrophone_def getAudioTracks_def grantsAll_def mounted_def screenSelected_def
      handleSourceChange_def listenForEnded_def getVideoTracks_def grant_def trackIds_def addTrack_def)

text \<open>
  Claim C1. For every capture source and every session whose start reached recording:
  once the stop sequence has completed (the stop click, the recorder's stop task and the
  render that follows), no track acquired for the session is live, the separately
  acquired microphone track of the screen path included, and no track is live that was
  not live before the session.
\<close>

theorem stop_releases_every_track:
  assumes "isRecording (hooks (clickStart plat st))"
  shows "liveTracks (recordingSession plat chunks lastData st) \<inter> acquiredTracks (hooks st) plat = {}
       \<and> liveTracks (recordingSession plat chunks lastData st) \<subseteq> liveTracks st"
  using recordingSession_eq [OF assms, of chunks lastData] by auto

theorem stop_releases_every_track_witness:
  "isRecording (hooks (clickStart grantsAll screenSelected))
   \<and> includeMic (hooks screenSelected) \<and> recordSource (hooks screenSelected) = Screen
   \<and> acquiredTracks (hooks screenSelected) grantsAll = {2, 3, 4}
   \<and> liveTracks (recordingSession grantsAll [chunkA] chunkB screenSelected) = {}
   \<and> isRecording (hooks (clickStart grantsAll mounted))
   \<and> recordSource (hooks mounted) = Camera
   \<and> liveTracks (recordingSession grantsAll [chunkA] chunkB mounted) = {}
   \<and> isRecording (hooks (clickStart grantsAll audioSelected))
   \<and> recordSource (hooks audioSelected) = Audio
   \<and> liveTracks (recordingSession grantsAll [] emptyChunk audioSelected) = {}"
proof -
  have "liveTracks screenSelected = {}" "liveTracks mounted = {}" "liveTracks audioSelected = {}"
    by (simp_all add: screenSelected_def audioSelected_def handleSourceChange_def mounted_def)
  moreover have "includeMic (hooks screenSelected) \<and> recordSource (hooks screenSelected) = Screen
      \<and> recordSource (hooks mounted) = Camera \<and> recordSource (hooks audioSelected) = Audio"
    by (simp add: screenSelected_def audioSelected_def handleSourceChange_def mounted_def)
  ultimately show ?thesis
    using stop_releases_every_track [OF starts_screen, of "[chunkA]" chunkB]
      stop_releases_every_track [OF starts_mounted, of "[chunkA]" chunkB]
      stop_releases_every_track [OF starts_audio, of "[]" emptyChunk]
      starts_screen starts_mounted starts_audio acquired_screen
    by simp
qed

lemma artifactMimeType_started:
  assumes "isRecording (hooks (clickStart plat st))"
  shows "artifactMimeType (hooks st) (clickStart plat st) =
     (if reportedMimeType plat (recorderOptions plat (recordSource (hooks st))) \<noteq> []
      then reportedMimeType plat (recorderOptions plat (recordSource (hooks st)))
      else defaultMimeType (recordSource (hooks st)))"
proof -
  from clickStart_recording [OF assms] obtain ms l LT AI where
    "clickStart plat st = (startedWith (hooks st) plat ms l st)
          \<lparr>liveTracks := LT, activeIntervals := AI, effectStream := Some ms\<rparr>"
    by blast
  then show ?thesis
    by (simp add: artifactMimeType_def startedWith_def)
qed

text \<open>
  Claim C3. For any number of chunks, the buffer holds the chunks in the order they
  arrived (chunks of size 0 are not stored), and the file produced at the end of the
  session has as bytes the concatenation, in arrival order, of the payloads delivered
  during the session, and as type the mime type the recorder reports or, when it reports
  none, \<^verbatim>\<open>audio/webm\<close> for the audio source and \<^verbatim>\<open>video/webm\<close> for camera and
  screen. A session with no data still produces a file, with no bytes and that type.
\<close>

theorem artifact_is_chunks_in_order:
  assumes "isRecording (hooks (clickStart plat st))"
  shows "recordedChunks (chunksArrive chunks (clickStart plat st))
           = filter (\<lambda>c. 0 < blobSize c) chunks
       \<and> recordedChunks (recordingSession plat chunks lastData st)
           = filter (\<lambda>c. 0 < blobSize c) (chunks @ [lastData])
       \<and> (\<exists>f. videoFile (recordingSession plat chunks lastData st) = Some f
              \<and> fileData f = concat (map blobData (chunks @ [lastData]))
              \<and> fileType f =
                  (if reportedMimeType plat (recorderOptions plat (recordSource (hooks st))) \<noteq> []
                   then reportedMimeType plat (recorderOptions plat (recordSource (hooks st)))
                   else if recordSource (hooks st) = Audio then ''audio/webm''
                   else ''video/webm''))"
proof -
  from clickStart_recording [OF assms] obtain ms l LT AI where
    "clickStart plat st = (startedWith (hooks st) plat ms l st)
          \<lparr>liveTracks := LT, activeIntervals := AI, effectStream := Some ms\<rparr>"
    by blast
  then have "recordedChunks (chunksArrive chunks (clickStart plat st))
      = filter (\<lambda>c. 0 < blobSize c) chunks"
    by (simp add: chunksArrive_eq startedWith_def)
  moreover from recordingSession_eq [OF assms, of chunks lastData]
  have "recordedChunks (recordingSession plat chunks lastData st)
           = filter (\<lambda>c. 0 < blobSize c) (chunks @ [lastData])"
    and "videoFile (recordingSession plat chunks lastData st) =
        Some (newFile
               [newBlob (filter (\<lambda>c. 0 < blobSize c) (chunks @ [lastData]))
                  (artifactMimeType (hooks st) (clickStart plat st))]
               (recordingFileName (recordSource (hooks st)))
               (artifactMimeType (hooks st) (clickStart plat st)))"
    by blast+
  moreover have "fileData (newFile [newBlob (filter (\<lambda>c. 0 < blobSize c) (chunks @ [lastData])) m] n m)
      = concat (map blobData (chunks @ [lastData]))" for m n
    unfolding newFile_def newBlob_def
    using concat_nonempty_chunks [of "chunks @ [lastData]"] by simp
  moreover have "fileType (newFile bs n m) = m" for bs n m
    by (simp add: newFile_def)
  ultimately show ?thesis
    using artifactMimeType_started [OF assms] by (simp add: defaultMimeType_def)
qed

theorem artifact_is_chunks_in_order_witness:
  "isRecording (hooks (clickStart grantsAll mounted))
   \<and> recordedChunks (recordingSession grantsAll [chunkA, emptyChunk] chunkB mounted) = [chunkA, chunkB]
   \<and> (\<exists>f. videoFile (recordingSession grantsAll [chunkA, emptyChunk] chunkB mounted) = Some f
          \<and> fileData f = [26, 69, 223, 163, 31, 67]
          \<and> fileType f = ''video/webm; codecs=vp9'')
   \<and> (\<exists>f. videoFile (recordingSession grantsAll [] emptyChunk mounted) = Some f
          \<and> fileData f = [] \<and> fileType f = ''video/webm; codecs=vp9'')
   \<and> isRecording (hooks (clickStart reportsNoType mounted))
   \<and> reportedMimeType reportsNoType (recorderOptions reportsNoType Camera) = []
   \<and> (\<exists>f. videoFile (recordingSession reportsNoType [] emptyChunk mounted) = Some f
          \<and> fileData f = [] \<and> fileType f = ''video/webm'')
   \<and> isRecording (hooks (clickStart reportsNoType audioSelected))
   \<and> (\<exists>f. videoFile (recordingSession reportsNoType [chunkB] emptyChunk audioSelected) = Some f
          \<and> fileData f = [31, 67] \<and> fileType f = ''audio/webm'')"
proof -
  have a: "isRecording (hooks (clickStart reportsNoType mounted))"
    by (simp add: clickStart_def hooks_commit isRecording_iff_acquired acquisitionSucceeds_def
        acquire_def getUserMedia_def reportsNoType_def grantsAll_def mounted_def)
  have b: "isRecording (hooks (clickStart reportsNoType audioSelected))"
    by (simp add: clickStart_def hooks_commit isRecording_iff_acquired acquisitionSucceeds_def
        acquire_def getUserMedia_def reportsNoType_def grantsAll_def mounted_def
        audioSelected_def handleSourceChange_def)
  have c: "recordSource (hooks mounted) = Camera" "recordSource (hooks audioSelected) = Audio"
    "reportedMimeType reportsNoType opts = []"
    "reportedMimeType grantsAll (recorderOptions grantsAll Camera) = ''video/webm; codecs=vp9''"
    for opts
    by (simp_all add: mounted_def audioSelected_def handleSourceChange_def reportsNoType_def
        grantsAll_def recorderOptions_def preferredMimeType_def)
  show ?thesis
    using starts_mounted a b c
      artifact_is_chunks_in_order [OF starts_mounted, of "[chunkA, emptyChunk]" chunkB]
      artifact_is_chunks_in_order [OF starts_mounted, of "[]" emptyChunk]
      artifact_is_chunks_in_order [OF a, of "[]" emptyChunk]
      artifact_is_chunks_in_order [OF b, of "[chunkB]" emptyChunk]
    by (simp add: chunkA_def chunkB_def emptyChunk_def blobSize_def)
qed

text \<open>
  Claim C8. The name of the file produced by a session is determined by the capture
  source alone: \<^verbatim>\<open>camera-recording.webm\<close>, \<^verbatim>\<open>screen-recording.webm\<close> or
  \<^verbatim>\<open>audio-recording.webm\<close>, whatever the chunks, the platform and the microphone
  setting.
\<close>

theorem artifact_name_from_source:
  assumes "isRecording (hooks (clickStart plat st))"
  shows "map_option fileName (videoFile (recordingSession plat chunks lastData st)) =
     Some (case recordSource (hooks st) of
             Camera \<Rightarrow> ''camera-recording.webm''
           | Screen \<Rightarrow> ''screen-recording.webm''
           | Audio \<Rightarrow> ''audio-recording.webm'')"
  using recordingSession_eq [OF assms, of chunks lastData]
  by (cases "recordSource (hooks st)") (auto simp: newFile_def recordingFileName_def)

theorem artifact_name_from_source_witness:
  "isRecording (hooks (clickStart grantsAll mounted))
   \<and> isRecording (hooks (clickStart grantsAll screenSelected))
   \<and> isRecording (hooks (clickStart grantsAll audioSelected))
   \<and> map_option fileName (videoFile (recordingSession grantsAll [chunkA] chunkB mounted))
       = Some ''camera-recording.webm''
   \<and> map_option fileName (videoFile (recordingSession grantsAll [] emptyChunk screenSelected))
       = Some ''screen-recording.webm''
   \<and> map_option fileName (videoFile (recordingSession grantsAll [chunkB] chunkA audioSelected))
       = Some ''audio-recording.webm''"
  using starts_mounted starts_screen starts_audio
    artifact_name_from_source [OF starts_mounted, of "[chunkA]" chunkB]
    artifact_name_from_source [OF starts_screen, of "[]" emptyChunk]
    artifact_name_from_source [OF starts_audio, of "[chunkB]" chunkA]
  by (simp add: mounted_def screenSelected_def audioSelected_def handleSourceChange_def)

text \<open>
  Claim C4. In a screen session, a stop triggered by the platform ending the share (the
  \<^verbatim>\<open>onended\<close> listener of the display video track) leaves, after the same chunks,
  exactly the component that a click on the stop button leaves: the same file, the same
  live tracks and intervals, the same state.
\<close>

theorem share_ended_same_as_manual_stop:
  assumes "recordSource (hooks st) = Screen" and "isRecording (hooks (clickStart plat st))"
  shows "sessionEndedByPlatform plat chunks lastData st = recordingSession plat chunks lastData st"
proof -
  from clickStart_recording [OF assms(2)] assms(1) obtain ms t LT AI where
    t: "t \<in> trackIds ms" and
    c: "clickStart plat st = (startedWith (hooks st) plat ms (Some (t, hooks st)) st)
          \<lparr>liveTracks := LT, activeIntervals := AI, effectStream := Some ms\<rparr>"
    by blast
  define s where "s = chunksArrive chunks (clickStart plat st)"
  define r where "r = \<lparr>recorderStream = ms,
      requestedMimeType = recorderOptions plat (recordSource (hooks st)),
      mimeType = reportedMimeType plat (recorderOptions plat (recordSource (hooks st))),
      state = Recording, stopQueued = False, onstopEnv = hooks st\<rparr>"
  have s: "stream (hooks s) = Some ms" "effectStream s = Some ms" "mediaRecorderRef s = Some r"
    "state r = Recording"
    and e: "onended s = Some (t, hooks st)"
    by (simp_all add: s_def r_def chunksArrive_eq c startedWith_def)
  have manual: "recordingSession plat chunks lastData st =
      recorderStops lastData (commit (handleStopRecording (hooks s) (s\<lparr>liveTracks := liveTracks s\<rparr>)))"
    by (simp add: recordingSession_def clickStop_def s_def)
  have ended: "sessionEndedByPlatform plat chunks lastData st =
      recorderStops lastData
        (commit (handleStopRecording (hooks st) (s\<lparr>liveTracks := liveTracks s - {t}\<rparr>)))"
    by (simp add: sessionEndedByPlatform_def shareEnded_def s_def [symmetric] e)
  have "liveTracks s - {t} - idsOf (stream (onstopEnv r)) - trackIds ms
      = liveTracks s - idsOf (stream (onstopEnv r)) - trackIds ms"
    using t by auto
  then show ?thesis
    unfolding manual ended stopSequence_eq [OF s] by simp
qed

theorem share_ended_same_as_manual_stop_witness:
  "recordSource (hooks screenSelected) = Screen
   \<and> isRecording (hooks (clickStart grantsAll screenSelected))
   \<and> sessionEndedByPlatform grantsAll [chunkA] chunkB screenSelected
       = recordingSession grantsAll [chunkA] chunkB screenSelected
   \<and> liveTracks (sessionEndedByPlatform grantsAll [chunkA] chunkB screenSelected) = {}
   \<and> map_option fileData (videoFile (sessionEndedByPlatform grantsAll [chunkA] chunkB screenSelected))
       = Some [26, 69, 223, 163, 31, 67]"
proof -
  have src: "recordSource (hooks screenSelected) = Screen" "liveTracks screenSelected = {}"
    by (simp_all add: screenSelected_def handleSourceChange_def mounted_def)
  from recordingSession_eq [OF starts_screen, of "[chunkA]" chunkB] src
  have "map_option fileData (videoFile (recordingSession grantsAll [chunkA] chunkB screenSelected))
       = Some [26, 69, 223, 163, 31, 67]"
    and "liveTracks (recordingSession grantsAll [chunkA] chunkB screenSelected) = {}"
    by (auto simp: chunkA_def chunkB_def blobSize_def newFile_def newBlob_def)
  then have "map_option fileData (videoFile (recordingSession grantsAll [chunkA] chunkB screenSelected))
       = Some [26, 69, 223, 163, 31, 67]
     \<and> liveTracks (recordingSession grantsAll [chunkA] chunkB screenSelected) = {}"
    by simp
  moreover note starts_screen
  ultimately show ?thesis
    using share_ended_same_as_manual_stop [OF src(1) starts_screen, of "[chunkA]" chunkB]
      src starts_screen
    by simp
qed


text \<open>
  Claim C7. Whenever the devices are acquired, the recorder is built and started and no
  error is set, whatever \<^verbatim>\<open>isTypeSupported\<close> answers: the recorder is built with the
  preferred mime type of the source (\<^verbatim>\<open>audio/webm\<close> for audio,
  \<^verbatim>\<open>video/webm; codecs=vp9\<close> for camera and screen) when the platform supports it, and
  with no mime type (the platform's default) when it does not.
\<close>

theorem unsupported_codec_falls_back:
  assumes "acquisitionSucceeds (hooks st) plat"
  shows "isRecording (hooks (clickStart plat st))
       \<and> error (hooks (clickStart plat st)) = None
       \<and> (\<exists>r. mediaRecorderRef (clickStart plat st) = Some r
              \<and> state r = Recording
              \<and> requestedMimeType r =
                  (if recordSource (hooks st) = Audio then
                     (if isTypeSupported plat ''audio/webm'' then Some ''audio/webm'' else None)
                   else
                     (if isTypeSupported plat ''video/webm; codecs=vp9''
                      then Some ''video/webm; codecs=vp9'' else None)))"
proof -
  from assms have rec: "isRecording (hooks (clickStart plat st))"
    by (simp add: clickStart_def hooks_commit isRecording_iff_acquired)
  from clickStart_recording [OF rec] obtain ms l LT AI where
    "clickStart plat st = (startedWith (hooks st) plat ms l st)
          \<lparr>liveTracks := LT, activeIntervals := AI, effectStream := Some ms\<rparr>"
    by blast
  then show ?thesis
    by (simp add: startedWith_def recorderOptions_def preferredMimeType_def)
qed

theorem unsupported_codec_falls_back_witness:
  "acquisitionSucceeds (hooks mounted) noCodecSupport
   \<and> \<not> isTypeSupported noCodecSupport ''video/webm; codecs=vp9''
   \<and> isRecording (hooks (clickStart noCodecSupport mounted))
   \<and> error (hooks (clickStart noCodecSupport mounted)) = None
   \<and> (\<exists>r. mediaRecorderRef (clickStart noCodecSupport mounted) = Some r
          \<and> state r = Recording \<and> requestedMimeType r = None)"
proof -
  have a: "acquisitionSucceeds (hooks mounted) noCodecSupport"
    by (simp add: acquisitionSucceeds_def acquire_def getUserMedia_def noCodecSupport_def
        grantsAll_def mounted_def)
  have b: "\<not> isTypeSupported noCodecSupport ''video/webm; codecs=vp9''"
      "recordSource (hooks mounted) = Camera"
    by (simp_all add: noCodecSupport_def mounted_def)
  show ?thesis
    using a b unsupported_codec_falls_back [OF a] by simp
qed

section \<open>Failed starts, the clock and the start button\<close>

lemmas eval_defs =
  clickStart_def commit_def handleStartRecording_def acquire_def addMicrophone_def
  getUserMedia_def getDisplayMedia_def getAudioTracks_def getVideoTracks_def listenForEnded_def
  grant_def trackIds_def addTrack_def catchStart_def errorMessage_def startRecorder_def
  newMediaRecorder_def recorderOptions_def preferredMimeType_def setInterval_def
  setStream_def setIsRecording_def setError_def setHasRecording_def setRecordingTime_def
  setVideoFile_def resetPreview_def effectCleanup_def stopTracks_def getTracks_def truthy_def
  clearInterval_def Let_def

lemma screenSelected_eq:
  "screenSelected = mounted\<lparr>hooks := (hooks mounted)\<lparr>recordSource := Screen\<rparr>\<rparr>"
  by (simp add: screenSelected_def handleSourceChange_def mounted_def)

lemma micDenied_start:
  "clickStart micDenied screenSelected =
     screenSelected\<lparr>hooks := (hooks screenSelected)
         \<lparr>error := Some ''Screen permission denied. Please allow access in your browser settings.''\<rparr>,
       liveTracks := {3, 4}\<rparr>"
  unfolding screenSelected_eq
  by (simp add: eval_defs micDenied_def grantsAll_def mounted_def insert_commute)

text \<open>
  Claim C2 asks that a permission denial during a start leaves no acquired track live,
  sets a message specific to the denial and ends in an errored, non-recording state. The
  message and the state are as claimed. The tracks are not: on the screen path with the
  microphone, when the display is granted (tracks 3 and 4) and the microphone request is
  then denied, the \<^verbatim>\<open>catch\<close> block stops nothing, \<^verbatim>\<open>stream\<close> was never set, and the
  display tracks stay live, also after the component is unmounted.
\<close>

theorem microphone_denial_leaves_display_tracks_live:
  "recordSource (hooks screenSelected) = Screen \<and> includeMic (hooks screenSelected)
   \<and> liveTracks screenSelected = {}
   \<and> getDisplayMedia micDenied
       = Inr \<lparr>streamId = 8, tracks = [\<lparr>trackId = 3, trackKind = VideoKind\<rparr>,
                                      \<lparr>trackId = 4, trackKind = AudioKind\<rparr>]\<rparr>
   \<and> getUserMedia micDenied False True = Inl (ErrorObject ''NotAllowedError'' ''Permission denied'')
   \<and> \<not> isRecording (hooks (clickStart micDenied screenSelected))
   \<and> error (hooks (clickStart micDenied screenSelected))
       = Some ''Screen permission denied. Please allow access in your browser settings.''
   \<and> stream (hooks (clickStart micDenied screenSelected)) = None
   \<and> liveTracks (clickStart micDenied screenSelected) = {3, 4}
   \<and> liveTracks (unmount (clickStart micDenied screenSelected)) = {3, 4}"
  unfolding micDenied_start
  by (simp add: screenSelected_eq mounted_def getDisplayMedia_def getUserMedia_def micDenied_def
      grantsAll_def unmount_def effectCleanup_def stopTracks_def)

lemma started_mounted:
  "clickStart grantsAll mounted =
     (startedWith (hooks mounted) grantsAll
        \<lparr>streamId = 7, tracks = [\<lparr>trackId = 1, trackKind = VideoKind\<rparr>,
                                 \<lparr>trackId = 2, trackKind = AudioKind\<rparr>]\<rparr> None mounted)
       \<lparr>activeIntervals := {}, effectStream := Some \<lparr>streamId = 7,
           tracks = [\<lparr>trackId = 1, trackKind = VideoKind\<rparr>, \<lparr>trackId = 2, trackKind = AudioKind\<rparr>]\<rparr>\<rparr>"
proof -
  have a: "acquire (hooks mounted) grantsAll mounted =
      Inr (\<lparr>streamId = 7, tracks = [\<lparr>trackId = 1, trackKind = VideoKind\<rparr>,
                                 \<lparr>trackId = 2, trackKind = AudioKind\<rparr>]\<rparr>,
           grant \<lparr>streamId = 7, tracks = [\<lparr>trackId = 1, trackKind = VideoKind\<rparr>,
                                 \<lparr>trackId = 2, trackKind = AudioKind\<rparr>]\<rparr> mounted)"
    by (simp add: acquire_def getUserMedia_def grantsAll_def mounted_def)
  from handleStartRecording_acquired [OF a, of mounted] have
    "handleStartRecording (hooks mounted) grantsAll mounted =
       startedWith (hooks mounted) grantsAll
        \<lparr>streamId = 7, tracks = [\<lparr>trackId = 1, trackKind = VideoKind\<rparr>,
                                 \<lparr>trackId = 2, trackKind = AudioKind\<rparr>]\<rparr> (onended mounted) mounted"
    by (auto simp: mounted_def)
  then show ?thesis
    by (simp add: clickStart_def commit_def startedWith_def mounted_def effectCleanup_def
        stopTracks_def truthy_def clearInterval_def)
qed

text \<open>
  Claim C6 asks that the clock advances by one for each second of recording. Started from
  the mounted component, the session is recording, but the render that follows the start
  has cleared interval 1, the one the start had just set: the clock stays at 0 however
  many seconds elapse.
\<close>

theorem recording_clock_never_ticks:
  "isRecording (hooks (clickStart grantsAll mounted))
   \<and> activeIntervals (handleStartRecording (hooks mounted) grantsAll mounted) = {1}
   \<and> timerIntervalRef (clickStart grantsAll mounted) = Some 1
   \<and> activeIntervals (clickStart grantsAll mounted) = {}
   \<and> recordingTime (hooks (tick 1 (clickStart grantsAll mounted))) = 0
   \<and> isRecording (hooks (tick 1 (tick 1 (clickStart grantsAll mounted))))
   \<and> recordingTime (hooks (tick 1 (tick 1 (clickStart grantsAll mounted)))) = 0"
proof -
  have a: "acquire (hooks mounted) grantsAll mounted =
      Inr (\<lparr>streamId = 7, tracks = [\<lparr>trackId = 1, trackKind = VideoKind\<rparr>,
                                 \<lparr>trackId = 2, trackKind = AudioKind\<rparr>]\<rparr>,
           grant \<lparr>streamId = 7, tracks = [\<lparr>trackId = 1, trackKind = VideoKind\<rparr>,
                                 \<lparr>trackId = 2, trackKind = AudioKind\<rparr>]\<rparr> mounted)"
    by (simp add: acquire_def getUserMedia_def grantsAll_def mounted_def)
  from handleStartRecording_acquired [OF a, of mounted]
  have h: "activeIntervals (handleStartRecording (hooks mounted) grantsAll mounted) = {1}"
    by (auto simp: startedWith_def mounted_def)
  have t: "tick 1 (clickStart grantsAll mounted) = clickStart grantsAll mounted"
    by (simp add: tick_def intervalElapses_def started_mounted commit_def startedWith_def)
  have "isRecording (hooks (clickStart grantsAll mounted))
      \<and> timerIntervalRef (clickStart grantsAll mounted) = Some 1
      \<and> activeIntervals (clickStart grantsAll mounted) = {}
      \<and> recordingTime (hooks (clickStart grantsAll mounted)) = 0"
    unfolding started_mounted by (simp add: startedWith_def mounted_def)
  with h show ?thesis
    unfolding t by simp
qed


text \<open>What the handlers do to the clock, taken one at a time.\<close>

lemma acquire_Inl_hooks: "acquire env plat st = Inl (err, st') \<Longrightarrow> hooks st' = hooks st"
  by (auto simp: acquire_def addMicrophone_def grant_def split: sum.splits if_splits list.splits)

lemma clock_reset_by_start: "recordingTime (hooks (handleStartRecording env plat st)) = 0"
proof -
  define p where "p = resetPreview (setRecordingTime 0
      ((setHasRecording False (setVideoFile None (setError None st)))\<lparr>recordedChunks := []\<rparr>))"
  have p: "recordingTime (hooks p) = 0"
    by (simp add: p_def resetPreview_def setRecordingTime_def)
  show ?thesis
  proof (cases "acquire env plat p")
    case (Inl failed)
    then obtain err st' where f: "acquire env plat p = Inl (err, st')"
      by (cases failed) simp
    then have "handleStartRecording env plat st = catchStart env err st'"
      by (simp add: handleStartRecording_def p_def Let_def)
    with acquire_Inl_hooks [OF f] p show ?thesis
      by (simp add: catchStart_def setIsRecording_def setError_def)
  next
    case (Inr granted)
    then obtain ms st' where "acquire env plat p = Inr (ms, st')"
      by (cases granted) simp
    from handleStartRecording_acquired [OF this, of st] show ?thesis
      by (auto simp: startedWith_def)
  qed
qed

lemma clock_callback_adds_one:
  "recordingTime (hooks (intervalCallback st)) = recordingTime (hooks st) + 1"
  "i \<in> activeIntervals st \<Longrightarrow> intervalElapses i st = intervalCallback st"
  "i \<notin> activeIntervals st \<Longrightarrow> intervalElapses i st = st"
  by (simp_all add: intervalCallback_def intervalElapses_def setRecordingTime_def)

lemma clock_frozen_by_stop:
  "recordingTime (hooks (handleStopRecording env st)) = recordingTime (hooks st)"
  "recordingTime (hooks (onstop env st)) = recordingTime (hooks st)"
  "timerIntervalRef st = Some i \<Longrightarrow> i \<noteq> 0 \<Longrightarrow> i \<notin> activeIntervals (handleStopRecording env st)"
  by (simp_all add: handleStopRecording_def onstop_eq truthy_def clearInterval_def
      setIsRecording_def setStream_def stopTracks_eq Let_def split: option.splits)

text \<open>
  The render that follows a start runs the cleanup of the effect on \<^verbatim>\<open>[stream]\<close>, since
  \<^verbatim>\<open>stream\<close> has changed; the cleanup clears the interval that
  \<^verbatim>\<open>timerIntervalRef.current\<close> names, which is the one the start has just set.
\<close>

lemma clickStart_clears_new_interval:
  assumes "isRecording (hooks (clickStart plat st))"
    and "effectStream st = None" and "nextIntervalId st \<noteq> 0"
  shows "timerIntervalRef (clickStart plat st) = Some (nextIntervalId st)
       \<and> nextIntervalId st \<in> activeIntervals (handleStartRecording (hooks st) plat st)
       \<and> nextIntervalId st \<notin> activeIntervals (clickStart plat st)"
proof -
  from assms(1) have "isRecording (hooks (handleStartRecording (hooks st) plat st))"
    by (simp add: clickStart_def hooks_commit)
  from handleStartRecording_started [OF this] obtain ms l where
    h: "handleStartRecording (hooks st) plat st = startedWith (hooks st) plat ms l st"
    by blast
  have "stream (hooks (startedWith (hooks st) plat ms l st))
      \<noteq> effectStream (startedWith (hooks st) plat ms l st)"
    using assms(2) by (simp add: startedWith_def)
  from commit_changed [OF this] h assms(3) show ?thesis
    by (simp add: clickStart_def startedWith_def timerOf_def)
qed

lemma handleStartRecording_phases:
  "handleStartRecording env plat st = startResumed env plat (startRequested st)"
  by (simp add: handleStartRecording_def startResumed_def startRequested_def Let_def)

lemma afterFirstClick_eq: "afterFirstClick = mounted" "afterSecondClick = mounted"
  by (simp_all add: afterSecondClick_def afterFirstClick_def startRequested_def commit_def
      setError_def setVideoFile_def setHasRecording_def setRecordingTime_def resetPreview_def
      mounted_def)

lemma firstResumed:
  "startResumed (hooks mounted) grantsAll mounted =
     startedWith (hooks mounted) grantsAll
        \<lparr>streamId = 7, tracks = [\<lparr>trackId = 1, trackKind = VideoKind\<rparr>,
                                 \<lparr>trackId = 2, trackKind = AudioKind\<rparr>]\<rparr> None mounted"
  by (simp add: startResumed_def startedWith_def eval_defs grantsAll_def mounted_def)

lemma secondResumed:
  "startResumed (hooks mounted) grantsAgain
     ((startedWith (hooks mounted) grantsAll
        \<lparr>streamId = 7, tracks = [\<lparr>trackId = 1, trackKind = VideoKind\<rparr>,
                                 \<lparr>trackId = 2, trackKind = AudioKind\<rparr>]\<rparr> None mounted)
        \<lparr>liveTracks := LT, activeIntervals := AI, effectStream := ES\<rparr>) =
     (startedWith (hooks mounted) grantsAgain
        \<lparr>streamId = 9, tracks = [\<lparr>trackId = 5, trackKind = VideoKind\<rparr>,
                                 \<lparr>trackId = 6, trackKind = AudioKind\<rparr>]\<rparr> None mounted)
       \<lparr>timerIntervalRef := Some 2, liveTracks := LT \<union> {5, 6},
        activeIntervals := insert 2 AI, nextIntervalId := 3, effectStream := ES\<rparr>"
  by (simp add: startResumed_def startedWith_def eval_defs grantsAgain_def grantsAll_def
      mounted_def Un_commute numeral_2_eq_2 numeral_3_eq_3)

text \<open>
  Claim C5 asks that a start request made while a session is active (started, not only
  recording) is rejected and leaves the session as it is. The gate above covers
  \<^verbatim>\<open>isRecording\<close> only, and \<^verbatim>\<open>isRecording\<close> is still false while the acquisition of a
  start is awaited: after the first click the start button is still rendered, and a
  second click runs \<^verbatim>\<open>handleStartRecording\<close> again. Alone, the first start would record
  stream 7. With the second, the component records stream 9 and the recorder ref holds the
  second recorder; tracks 1 and 2 of the first acquisition stay live (also after the stop
  sequence) and interval 1 is left running when both continuations run before the next
  render, and the first stream's tracks are stopped under its recorder when a render
  comes between them.
\<close>

theorem second_start_during_acquisition_not_rejected:
  "\<not> isRecording (hooks afterFirstClick) \<and> renderedButton afterFirstClick = StartButton
   \<and> stream (hooks (commit (startResumed (hooks mounted) grantsAll afterFirstClick)))
       = Some \<lparr>streamId = 7, tracks = [\<lparr>trackId = 1, trackKind = VideoKind\<rparr>,
                                       \<lparr>trackId = 2, trackKind = AudioKind\<rparr>]\<rparr>
   \<and> isRecording (hooks doubleStart)
   \<and> stream (hooks doubleStart)
       = Some \<lparr>streamId = 9, tracks = [\<lparr>trackId = 5, trackKind = VideoKind\<rparr>,
                                       \<lparr>trackId = 6, trackKind = AudioKind\<rparr>]\<rparr>
   \<and> map_option recorderStream (mediaRecorderRef doubleStart) = stream (hooks doubleStart)
   \<and> liveTracks doubleStart = {1, 2, 5, 6}
   \<and> timerIntervalRef doubleStart = Some 2 \<and> activeIntervals doubleStart = {1}
   \<and> liveTracks (recorderStops chunkB (clickStop doubleStart)) = {1, 2}
   \<and> stream (hooks doubleStartRendered) = stream (hooks doubleStart)
   \<and> map_option recorderStream (mediaRecorderRef doubleStartRendered) = stream (hooks doubleStart)
   \<and> liveTracks doubleStartRendered = {5, 6}"
proof -
  define ms7 where "ms7 = \<lparr>streamId = 7, tracks = [\<lparr>trackId = 1, trackKind = VideoKind\<rparr>,
                                 \<lparr>trackId = 2, trackKind = AudioKind\<rparr>]\<rparr>"
  define ms9 where "ms9 = \<lparr>streamId = 9, tracks = [\<lparr>trackId = 5, trackKind = VideoKind\<rparr>,
                                 \<lparr>trackId = 6, trackKind = AudioKind\<rparr>]\<rparr>"
  define X where "X = startedWith (hooks mounted) grantsAll ms7 None mounted"
  define Y where "Y = startedWith (hooks mounted) grantsAgain ms9 None mounted"
  have X: "startResumed (hooks mounted) grantsAll mounted = X"
    unfolding X_def ms7_def by (rule firstResumed)
  have Xp: "X = X\<lparr>liveTracks := {1, 2}, activeIntervals := {1}, effectStream := None\<rparr>"
    by (simp add: X_def ms7_def startedWith_def mounted_def trackIds_def)
  have first: "\<not> isRecording (hooks afterFirstClick) \<and> renderedButton afterFirstClick = StartButton"
    by (simp add: afterFirstClick_eq renderedButton_def mounted_def)
  have alone: "stream (hooks (commit (startResumed (hooks mounted) grantsAll afterFirstClick)))
      = Some ms7"
    by (simp add: afterFirstClick_eq X hooks_commit X_def startedWith_def)
  have d: "doubleStart = commit (Y\<lparr>timerIntervalRef := Some 2, liveTracks := {1, 2} \<union> {5, 6},
        activeIntervals := insert 2 {1}, nextIntervalId := 3, effectStream := None\<rparr>)"
    unfolding doubleStart_def afterFirstClick_eq X
    by (subst Xp) (simp only: X_def Y_def ms7_def ms9_def secondResumed)
  define Z where "Z = Y\<lparr>timerIntervalRef := Some 2, liveTracks := {1, 2} \<union> {5, 6},
        activeIntervals := insert 2 {1}, nextIntervalId := 3, effectStream := None\<rparr>"
  have "stream (hooks Z) \<noteq> effectStream Z"
    by (simp add: Z_def Y_def startedWith_def)
  note d' = d [folded Z_def, unfolded commit_changed [OF this]]
  have r: "stream (hooks doubleStart) = Some ms9" "effectStream doubleStart = Some ms9"
    "mediaRecorderRef doubleStart = Some \<lparr>recorderStream = ms9,
        requestedMimeType = recorderOptions grantsAgain Camera,
        mimeType = reportedMimeType grantsAgain (recorderOptions grantsAgain Camera),
        state = Recording, stopQueued = False, onstopEnv = hooks mounted\<rparr>"
    "state \<lparr>recorderStream = ms9,
        requestedMimeType = recorderOptions grantsAgain Camera,
        mimeType = reportedMimeType grantsAgain (recorderOptions grantsAgain Camera),
        state = Recording, stopQueued = False, onstopEnv = hooks mounted\<rparr> = Recording"
    "isRecording (hooks doubleStart)"
    "timerIntervalRef doubleStart = Some 2"
    unfolding d' by (simp_all add: Z_def Y_def startedWith_def mounted_def)
  have r': "liveTracks doubleStart = {1, 2, 5, 6}" "activeIntervals doubleStart = {1}"
    unfolding d' by (auto simp: Z_def idsOf_def timerOf_def)
  have "recorderStops chunkB (clickStop doubleStart) =
      recorderStops chunkB (commit (handleStopRecording (hooks doubleStart)
        (doubleStart\<lparr>liveTracks := liveTracks doubleStart\<rparr>)))"
    by (simp add: clickStop_def)
  note fin = this [unfolded stopSequence_eq [OF r(1-4)]]
  have stop: "liveTracks (recorderStops chunkB (clickStop doubleStart)) = {1, 2}"
    unfolding fin by (auto simp: r' idsOf_def mounted_def ms9_def trackIds_def)
  have Xc: "commit X = X\<lparr>liveTracks := {1, 2}, activeIntervals := {}, effectStream := Some ms7\<rparr>"
    by (subst commit_changed) (auto simp: X_def startedWith_def idsOf_def timerOf_def mounted_def
        ms7_def trackIds_def)
  have e: "doubleStartRendered = commit (Y\<lparr>timerIntervalRef := Some 2, liveTracks := {1, 2} \<union> {5, 6},
        activeIntervals := insert 2 {}, nextIntervalId := 3, effectStream := Some ms7\<rparr>)"
    unfolding doubleStartRendered_def afterFirstClick_eq X Xc
    by (simp only: X_def Y_def ms7_def ms9_def secondResumed)
  define W where "W = Y\<lparr>timerIntervalRef := Some 2, liveTracks := {1, 2} \<union> {5, 6},
        activeIntervals := insert 2 {}, nextIntervalId := 3, effectStream := Some ms7\<rparr>"
  have "stream (hooks W) \<noteq> effectStream W"
    by (simp add: W_def Y_def startedWith_def ms7_def ms9_def)
  note e' = e [folded W_def, unfolded commit_changed [OF this]]
  have rr: "stream (hooks doubleStartRendered) = Some ms9"
    "map_option recorderStream (mediaRecorderRef doubleStartRendered) = Some ms9"
    unfolding e' by (simp_all add: W_def Y_def startedWith_def)
  have rr': "liveTracks doubleStartRendered = {5, 6}"
    unfolding e' by (auto simp: W_def idsOf_def ms7_def trackIds_def)
  show ?thesis
    using first alone r r' stop rr rr' unfolding ms7_def ms9_def by simp
qed

text \<open>
  The gate the component does have: while \<^verbatim>\<open>isRecording\<close> is true the button that is
  rendered is the stop button, so a click runs \<^verbatim>\<open>handleStopRecording\<close> and never
  \<^verbatim>\<open>handleStartRecording\<close>; with the recorder recording, that click leaves the
  buffer, the clock, the stream and the selected file as they are.
\<close>

lemma stop_button_while_recording:
  assumes "isRecording (hooks st)"
    and "mediaRecorderRef st = Some r" and "state r = Recording"
    and "effectStream st = stream (hooks st)"
  shows "renderedButton st = StopButton
       \<and> clickButton plat st = clickStop st
       \<and> recordedChunks (clickButton plat st) = recordedChunks st
       \<and> recordingTime (hooks (clickButton plat st)) = recordingTime (hooks st)
       \<and> stream (hooks (clickButton plat st)) = stream (hooks st)
       \<and> videoFile (clickButton plat st) = videoFile st"
proof -
  have b: "renderedButton st = StopButton" "clickButton plat st = clickStop st"
    using assms(1) by (simp_all add: renderedButton_def clickButton_def)
  have "clickStop st = handleStopRecording (hooks st) st"
    unfolding clickStop_def handleStopRecording_recording [OF assms(2,3)]
    using assms(4) by (simp add: commit_same)
  then show ?thesis
    unfolding b handleStopRecording_recording [OF assms(2,3)] by simp
qed

lemma stop_button_while_recording_at_recordingNow:
  "isRecording (hooks recordingNow)
   \<and> (\<exists>r. mediaRecorderRef recordingNow = Some r \<and> state r = Recording)
   \<and> effectStream recordingNow = stream (hooks recordingNow)
   \<and> renderedButton recordingNow = StopButton
   \<and> clickButton grantsAgain recordingNow = clickStop recordingNow
   \<and> recordedChunks (clickButton grantsAgain recordingNow) = [chunkA]
   \<and> videoFile (clickButton grantsAgain recordingNow) = None"
proof -
  have r: "recordingNow = (clickStart grantsAll mounted)\<lparr>recordedChunks := [chunkA]\<rparr>"
    by (simp add: recordingNow_def chunksArrive_eq started_mounted startedWith_def chunkA_def
        blobSize_def)
  define rec where "rec = \<lparr>recorderStream = \<lparr>streamId = 7,
        tracks = [\<lparr>trackId = 1, trackKind = VideoKind\<rparr>, \<lparr>trackId = 2, trackKind = AudioKind\<rparr>]\<rparr>,
      requestedMimeType = recorderOptions grantsAll Camera,
      mimeType = reportedMimeType grantsAll (recorderOptions grantsAll Camera),
      state = Recording, stopQueued = False, onstopEnv = hooks mounted\<rparr>"
  have f: "isRecording (hooks recordingNow)" "mediaRecorderRef recordingNow = Some rec"
    "state rec = Recording" "effectStream recordingNow = stream (hooks recordingNow)"
    "recordedChunks recordingNow = [chunkA]" "videoFile recordingNow = None"
    unfolding r started_mounted by (simp_all add: startedWith_def rec_def mounted_def)
  from stop_button_while_recording [OF f(1-4), of grantsAgain] f show ?thesis
    by auto
qed


lemma acquire_Inl:
  "acquire env plat st = Inl (err, st') \<Longrightarrow>
     st' = st \<or> (recordSource env = Screen \<and> includeMic env \<and> (\<exists>d. getDisplayMedia plat = Inr d))"
  by (cases "recordSource env")
     (auto simp: acquire_def addMicrophone_def split: sum.splits if_splits list.splits)

lemma handleStartRecording_caught:
  assumes "acquire env plat st0 = Inl (err, st0')"
  shows "\<exists>st'. handleStartRecording env plat st = catchStart env err st'"
proof -
  define p where "p = resetPreview (setRecordingTime 0
      ((setHasRecording False (setVideoFile None (setError None st)))\<lparr>recordedChunks := []\<rparr>))"
  have "\<exists>st'. acquire env plat p = Inl (err, st')"
    using assms
    by (auto simp: acquire_def addMicrophone_def split: sum.splits if_splits list.splits)
  then obtain st' where "acquire env plat p = Inl (err, st')" by blast
  then have "handleStartRecording env plat st = catchStart env err st'"
    by (simp add: handleStartRecording_def p_def Let_def)
  then show ?thesis by blast
qed

text \<open>The part of C2 that holds on every path: the message and the state.\<close>

lemma permission_denial_reported:
  assumes "acquire (hooks st) plat mounted = Inl (ErrorObject name message, st0)"
    and "name = ''NotAllowedError'' \<or> name = ''PermissionDeniedError''"
  shows "\<not> isRecording (hooks (clickStart plat st))
       \<and> error (hooks (clickStart plat st)) =
           Some ((if recordSource (hooks st) = Camera then ''Camera/mic'' else ''Screen'')
                 @ '' permission denied. Please allow access in your browser settings.'')"
proof -
  from handleStartRecording_caught [OF assms(1), of st] obtain st' where
    "handleStartRecording (hooks st) plat st = catchStart (hooks st) (ErrorObject name message) st'"
    by blast
  with assms(2) show ?thesis
    by (auto simp: clickStart_def hooks_commit catchStart_def errorMessage_def setIsRecording_def
        setError_def)
qed

section \<open>Guide generation\<close>

text \<open>
  Given the video file, \<^verbatim>\<open>generateGuide\<close> sends one request: the prompt built from the
  template as its text part, then one inline-data part with the file's mime type.
\<close>

lemma generateGuide_request:
  "\<exists>d. snd (generateGuide api up fmt nm vd tt (Some f)) =
     [\<lparr>model = ''gemini-2.5-pro'',
       parts = [TextPart (fullPrompt up fmt nm vd tt), InlineData (fileType f) d]\<rparr>]"
  by (auto simp: generateGuide_def fileToBase64_def Let_def split: list.splits sum.splits)

text \<open>\<^verbatim>\<open>handleGenerate\<close> never passes the video file, so it never sends a request.\<close>

lemma handleGenerate_sends_nothing: "snd (handleGenerate api app) = []"
  by (simp add: handleGenerate_def generateGuide_def fileToBase64_def Let_def
      split: option.splits)

text \<open>
  Claim C9 asks that every guide-generation request carries the prompt built from the
  fixed template and exactly one video payload, the selected file's bytes and mime type.
  \<^verbatim>\<open>generateGuide\<close> builds that request when it is given the file (last conjunct:
  \<open>GkXf\<close> is the base64 of the three bytes). \<^verbatim>\<open>handleGenerate\<close> calls it without the
  file: with \<^verbatim>\<open>demo.webm\<close> selected, no request is sent and the error of
  \<^verbatim>\<open>generateGuide\<close> is shown.
\<close>

theorem generate_call_omits_video:
  "appVideoFile demoApp
     = Some \<lparr>fileName = ''demo.webm'', fileType = ''video/webm'', fileData = [26, 69, 223]\<rparr>
   \<and> snd (handleGenerate answering demoApp) = []
   \<and> appError (fst (handleGenerate answering demoApp))
       = ''An error occurred: Failed to generate guide. Please check your API key and network connection.''
   \<and> generatedOutput (fst (handleGenerate answering demoApp)) = []
   \<and> snd (generateGuide answering [] Guide ''demo.webm'' ''Filtering the dashboard'' []
             (appVideoFile demoApp))
       = [\<lparr>model = ''gemini-2.5-pro'',
           parts = [TextPart (fullPrompt [] Guide ''demo.webm'' ''Filtering the dashboard'' []),
                    InlineData ''video/webm'' (Some ''GkXf'')]\<rparr>]"
  by (simp add: handleGenerate_def generateGuide_def fileToBase64_def generateGuideFailure_def
      demoApp_def answering_def readAsDataURL_def base64Digit_def Let_def)

end
